theory Spec2Isabelle
  imports Main
begin

section \<open>Values shared by the database schema and the sync function\<close>

text \<open>
  JSON values, for the JSONB columns and for the objects that the DMS sync function
  stores and returns. JSONB values are taken in normal form, so that equality of the terms
  is the equality PostgreSQL computes for \<^verbatim>\<open>IS DISTINCT FROM\<close>.
\<close>

text \<open>
  A point in time (\<^verbatim>\<open>TIMESTAMPTZ\<close>, \<^verbatim>\<open>NOW()\<close>, \<^verbatim>\<open>Date.now()\<close>), counted from the epoch.
\<close>

type_synonym timestamptz = int

datatype json =
  JNull
| JBool bool
| JNum int
| JStr string
| JTime timestamptz \<comment> \<open>the string \<^verbatim>\<open>new Date(t).toISOString()\<close>\<close>
| JArr "json list"
| JObj "(string \<times> json) list"

section \<open>The applications table and its update triggers\<close>

subsection \<open>SQL's three-valued logic\<close>

text \<open>
  A nullable column is an \<open>option\<close>: \<open>None\<close> is \<^verbatim>\<open>NULL\<close>. A boolean expression of SQL
  evaluates to \<open>Some True\<close>, \<open>Some False\<close> or \<open>None\<close> (unknown).
\<close>

type_synonym sql_bool = "bool option"

definition sql_and :: "sql_bool \<Rightarrow> sql_bool \<Rightarrow> sql_bool" where
  "sql_and a b =
     (if a = Some False \<or> b = Some False then Some False
      else if a = Some True \<and> b = Some True then Some True
      else None)"

definition sql_or :: "sql_bool \<Rightarrow> sql_bool \<Rightarrow> sql_bool" where
  "sql_or a b =
     (if a = Some True \<or> b = Some True then Some True
      else if a = Some False \<and> b = Some False then Some False
      else None)"

definition sql_eq :: "'a option \<Rightarrow> 'a option \<Rightarrow> sql_bool" where
  "sql_eq a b = (case (a, b) of (Some x, Some y) \<Rightarrow> Some (x = y) | _ \<Rightarrow> None)"

definition sql_ne :: "'a option \<Rightarrow> 'a option \<Rightarrow> sql_bool" where
  "sql_ne a b = (case (a, b) of (Some x, Some y) \<Rightarrow> Some (x \<noteq> y) | _ \<Rightarrow> None)"

definition sql_ge :: "timestamptz option \<Rightarrow> timestamptz option \<Rightarrow> sql_bool" where
  "sql_ge a b = (case (a, b) of (Some x, Some y) \<Rightarrow> Some (y \<le> x) | _ \<Rightarrow> None)"

definition sql_gt :: "timestamptz option \<Rightarrow> timestamptz option \<Rightarrow> sql_bool" where
  "sql_gt a b = (case (a, b) of (Some x, Some y) \<Rightarrow> Some (y < x) | _ \<Rightarrow> None)"

definition is_null :: "'a option \<Rightarrow> sql_bool" where
  "is_null a = Some (a = None)"

definition is_not_null :: "'a option \<Rightarrow> sql_bool" where
  "is_not_null a = Some (a \<noteq> None)"

text \<open>\<^verbatim>\<open>a IS DISTINCT FROM b\<close> is never unknown: two NULLs are not distinct.\<close>

definition is_distinct_from :: "'a option \<Rightarrow> 'a option \<Rightarrow> bool" where
  "is_distinct_from a b = (a \<noteq> b)"

text \<open>
  A PL/pgSQL \<^verbatim>\<open>IF\<close> takes its branch only when the condition is true; a \<^verbatim>\<open>CHECK\<close>
  constraint rejects a row only when the condition is false.
\<close>

definition plpgsql_if :: "sql_bool \<Rightarrow> bool" where
  "plpgsql_if c = (c = Some True)"

definition check_holds :: "sql_bool \<Rightarrow> bool" where
  "check_holds c = (c \<noteq> Some False)"

subsection \<open>The table\<close>

datatype application_status_enum =
  draft
| submitted
| under_review
| additional_info_required
| interview_scheduled
| decision_pending
| approved
| rejected
| withdrawn
| on_hold
| appealed
| expired

text \<open>
  A row of \<^verbatim>\<open>public.applications\<close>: the columns that the update triggers and the table's
  constraints read or write, with a metadata column for the changes that the version
  counter ignores. Every column but \<open>form_data\<close> is nullable in the schema.
\<close>

record application =
  status :: "application_status_enum option"
  submitted_at :: "timestamptz option"
  review_started_at :: "timestamptz option"
  decision_date :: "timestamptz option"
  expiry_date :: "timestamptz option"
  form_data :: "json option"
  metadata :: "json option"
  created_at :: "timestamptz option"
  updated_at :: "timestamptz option"
  version :: "int option"

text \<open>
  The errors that abort an \<^verbatim>\<open>UPDATE\<close> of the table: \<^verbatim>\<open>integer out of range\<close>, a
  \<^verbatim>\<open>NOT NULL\<close> violation (of the named column), a \<^verbatim>\<open>CHECK\<close> violation (of the named
  constraint) and \<^verbatim>\<open>column reference "..." is ambiguous\<close>. Nothing in the schema raises
  an error of its own: there is no \<^verbatim>\<open>RAISE\<close> in any of its functions.
\<close>

datatype pg_error =
  integer_out_of_range
| not_null_violation string
| check_violation string
| ambiguous_column string

text \<open>\<^verbatim>\<open>CONSTRAINT valid_dates CHECK (...)\<close>\<close>

definition valid_dates :: "application \<Rightarrow> sql_bool" where
  "valid_dates r =
     sql_and
       (sql_and
          (sql_or (is_null (submitted_at r)) (sql_ge (submitted_at r) (created_at r)))
          (sql_or (is_null (decision_date r)) (sql_ge (decision_date r) (submitted_at r))))
       (sql_or (is_null (expiry_date r)) (sql_gt (expiry_date r) (created_at r)))"

text \<open>\<^verbatim>\<open>CONSTRAINT valid_status_transitions CHECK (...)\<close>\<close>

definition valid_status_transitions :: "application \<Rightarrow> sql_bool" where
  "valid_status_transitions r =
     sql_or
       (sql_and (sql_eq (status r) (Some draft)) (is_null (submitted_at r)))
       (sql_and (sql_ne (status r) (Some draft)) (is_not_null (submitted_at r)))"

text \<open>
  The checks a row passes before it is stored: \<^verbatim>\<open>form_data JSONB NOT NULL\<close>, then the two
  \<^verbatim>\<open>CHECK\<close> constraints.
\<close>

definition check_constraints :: "application \<Rightarrow> pg_error + application" where
  "check_constraints r =
     (if form_data r = None then Inl (not_null_violation ''form_data'')
      else if \<not> check_holds (valid_dates r) then Inl (check_violation ''valid_dates'')
      else if \<not> check_holds (valid_status_transitions r)
        then Inl (check_violation ''valid_status_transitions'')
      else Inr r)"

subsection \<open>The triggers\<close>

text \<open>
  \<^verbatim>\<open>public.handle_application_status_change()\<close>, a \<^verbatim>\<open>BEFORE UPDATE ... FOR EACH ROW\<close>
  trigger: \<open>OLD\<close> is the stored row, \<open>NEW\<close> the row the \<^verbatim>\<open>UPDATE\<close> statement proposes, and
  the row returned is the one that goes on to the next trigger and the constraints.
\<close>

text \<open>The \<^verbatim>\<open>CASE NEW.status\<close> statement of the trigger.\<close>

definition status_timestamps :: "timestamptz \<Rightarrow> application \<Rightarrow> application \<Rightarrow> application" where
  "status_timestamps now OLD NEW =
     (case status NEW of
        Some submitted \<Rightarrow>
          if plpgsql_if (sql_eq (status OLD) (Some draft))
          then NEW\<lparr>submitted_at := Some now\<rparr> else NEW
      | Some under_review \<Rightarrow>
          if plpgsql_if (is_null (review_started_at NEW))
          then NEW\<lparr>review_started_at := Some now\<rparr> else NEW
      | Some approved \<Rightarrow>
          if plpgsql_if (is_null (decision_date NEW))
          then NEW\<lparr>decision_date := Some now\<rparr> else NEW
      | Some rejected \<Rightarrow>
          if plpgsql_if (is_null (decision_date NEW))
          then NEW\<lparr>decision_date := Some now\<rparr> else NEW
      | _ \<Rightarrow> NEW)"

text \<open>
  \<^verbatim>\<open>OLD.version + 1\<close> on an \<^verbatim>\<open>INTEGER\<close> column: NULL for a NULL version, and the error
  \<^verbatim>\<open>integer out of range\<close> past \<open>2147483647\<close>.
\<close>

definition int4_add1 :: "int option \<Rightarrow> pg_error + int option" where
  "int4_add1 v =
     (case v of
        None \<Rightarrow> Inr None
      | Some n \<Rightarrow> if n + 1 > 2147483647 then Inl integer_out_of_range else Inr (Some (n + 1)))"

text \<open>The whole trigger function: the timestamps, then the version.\<close>

definition handle_application_status_change ::
  "timestamptz \<Rightarrow> application \<Rightarrow> application \<Rightarrow> pg_error + application" where
  "handle_application_status_change now OLD NEW =
     (let NEW1 = status_timestamps now OLD NEW in
      if is_distinct_from (form_data OLD) (form_data NEW1) \<or>
         is_distinct_from (status OLD) (status NEW1)
      then (case int4_add1 (version OLD) of
              Inl e \<Rightarrow> Inl e
            | Inr v \<Rightarrow> Inr (NEW1\<lparr>version := v\<rparr>))
      else Inr NEW1)"

text \<open>\<^verbatim>\<open>public.update_updated_at_column()\<close>, the table's other \<^verbatim>\<open>BEFORE UPDATE\<close> trigger.\<close>

definition update_updated_at_column :: "timestamptz \<Rightarrow> application \<Rightarrow> application" where
  "update_updated_at_column now NEW = NEW\<lparr>updated_at := Some now\<rparr>"

text \<open>
  What happens to one row of an \<^verbatim>\<open>UPDATE\<close> before the row is written. The \<^verbatim>\<open>BEFORE\<close>
  triggers fire in the order of their names (\<^verbatim>\<open>handle_application_status_change\<close>, then
  \<^verbatim>\<open>update_applications_updated_at\<close>), and the constraints are checked on the row they
  return. \<open>Inl\<close> is the error that aborts the statement; \<open>Inr\<close> is the row that the
  \<^verbatim>\<open>BEFORE\<close> triggers and the constraints pass on to be written.
\<close>

definition before_update ::
  "timestamptz \<Rightarrow> application \<Rightarrow> application \<Rightarrow> pg_error + application" where
  "before_update now OLD NEW =
     (case handle_application_status_change now OLD NEW of
        Inl e \<Rightarrow> Inl e
      | Inr r \<Rightarrow> check_constraints (update_updated_at_column now r))"

text \<open>
  The \<^verbatim>\<open>AFTER UPDATE ... FOR EACH ROW\<close> triggers see the stored row and the written one.
  They never change the row, but an error they raise aborts the statement, and the
  stored row stays as it was. \<open>None\<close> is a trigger that raised nothing.
\<close>

type_synonym after_trigger = "application \<Rightarrow> application \<Rightarrow> pg_error option"

text \<open>
  \<^verbatim>\<open>public.create_audit_log()\<close> as the trigger \<^verbatim>\<open>audit_applications_changes\<close> runs it for
  an update (\<^verbatim>\<open>TG_OP = 'UPDATE'\<close>). Its statement
  \<^verbatim>\<open>SELECT array_agg(key) INTO changed_fields FROM jsonb_each(old_data) o FULL OUTER JOIN jsonb_each(new_data) n ON o.key = n.key ...\<close>
  names a column \<^verbatim>\<open>key\<close> that both sides of the join have, so PostgreSQL raises
  \<^verbatim>\<open>column reference "key" is ambiguous\<close> whenever the branch runs, for every pair of rows.
\<close>

definition create_audit_log :: after_trigger where
  "create_audit_log OLD NEW = Some (ambiguous_column ''key'')"

text \<open>One \<^verbatim>\<open>UPDATE\<close> of one row, with \<open>after\<close> for what the \<^verbatim>\<open>AFTER UPDATE\<close> triggers do.\<close>

definition update_with ::
  "after_trigger \<Rightarrow> timestamptz \<Rightarrow> application \<Rightarrow> application \<Rightarrow> pg_error + application"
  where
  "update_with after now OLD NEW =
     (case before_update now OLD NEW of
        Inl e \<Rightarrow> Inl e
      | Inr r \<Rightarrow> (case after OLD r of Some e \<Rightarrow> Inl e | None \<Rightarrow> Inr r))"

text \<open>
  One \<^verbatim>\<open>UPDATE\<close> of one row in the schema as it is written. The \<^verbatim>\<open>AFTER\<close> triggers fire in
  the order of their names too: \<^verbatim>\<open>audit_applications_changes\<close> first, and
  \<^verbatim>\<open>notify_application_status_change\<close> only if the audit trigger raised nothing, which it
  never does.
\<close>

definition update_application ::
  "timestamptz \<Rightarrow> application \<Rightarrow> application \<Rightarrow> pg_error + application" where
  "update_application = update_with create_audit_log"

text \<open>\<^verbatim>\<open>SET status = s\<close>: the clause of a statement that only moves the status.\<close>

definition set_status :: "application_status_enum \<Rightarrow> application \<Rightarrow> application" where
  "set_status s r = r\<lparr>status := Some s\<rparr>"



text \<open>
  The row that a status-only update hands to the constraints when the stored version is
  \<open>v\<close> (see \<open>before_update_status\<close> below).
\<close>

definition proposed ::
  "timestamptz \<Rightarrow> application \<Rightarrow> application_status_enum \<Rightarrow> int \<Rightarrow> application" where
  "proposed now OLD s v =
     update_updated_at_column now
       ((status_timestamps now OLD (OLD\<lparr>status := Some s\<rparr>))\<lparr>version :=
          if Some s \<noteq> status OLD then Some (v + 1) else version OLD\<rparr>)"

section \<open>The DMS synchronisation edge function\<close>

subsection \<open>Rows, configurations and reports\<close>

type_synonym blob = string

text \<open>
  A value that JavaScript code reads from an object which may lack the key: \<^verbatim>\<open>undefined\<close>,
  \<^verbatim>\<open>null\<close>, or a string. The identifiers and URLs that a DMS returns are of this kind.
\<close>

datatype jsval = Undefined | Null | Str string

text \<open>A template string renders the value as text.\<close>

definition show_jsval :: "jsval \<Rightarrow> string" where
  "show_jsval v = (case v of Undefined \<Rightarrow> ''undefined'' | Null \<Rightarrow> ''null'' | Str s \<Rightarrow> s)"

text \<open>
  The value as a key of an update's patch, which is sent as JSON: a key whose value is
  \<^verbatim>\<open>undefined\<close> is left out, and the column keeps what it had; \<^verbatim>\<open>null\<close> empties the
  column.
\<close>

definition assign :: "jsval \<Rightarrow> string option \<Rightarrow> string option" where
  "assign v old = (case v of Undefined \<Rightarrow> old | Null \<Rightarrow> None | Str s \<Rightarrow> Some s)"

text \<open>
  A row of \<^verbatim>\<open>documents\<close> as the sync function reads and writes it. A row that a pull
  creates has no application and no stored file.
\<close>

record document =
  doc_id :: string
  application_id :: "string option"
  storage_path :: "string option"
  file_name :: string
  file_size :: int
  file_type :: string
  doc_metadata :: "json option"
  doc_updated_at :: "timestamptz option"
  external_dms_id :: "string option"
  external_dms_url :: "string option"
  synced_at :: "timestamptz option"
  needs_sync :: "bool option"
  sync_metadata :: "json option"

text \<open>A document as the external DMS lists it (\<^verbatim>\<open>extDoc\<close>).\<close>

record external_document =
  ext_id :: string
  ext_name :: string
  ext_size :: int
  ext_type :: string
  ext_metadata :: "json option"

datatype dms_type = sharepoint | filenet | documentum | custom

datatype conflict_resolution = local_wins | remote_wins | manual

record dms_auth_config =
  auth_type :: string
  clientId :: string
  clientSecret :: string
  tenantId :: string

record dms_sync_settings =
  syncInterval :: nat
  batchSize :: nat
  retryAttempts :: nat
  settings_conflictResolution :: conflict_resolution
  enableRealTimeSync :: bool

record dms_config =
  systemId :: string
  config_name :: string
  config_type :: dms_type
  endpoint :: string
  authentication :: dms_auth_config
  syncSettings :: dms_sync_settings

text \<open>\<^verbatim>\<open>DMSSyncOptions\<close>: every field is optional.\<close>

record dms_sync_options =
  dryRun :: "bool option"
  forceSync :: "bool option"
  conflictResolution :: "conflict_resolution option"

text \<open>\<^verbatim>\<open>DMSSyncRequest\<close>. The action is whatever string the caller sent, if any.\<close>

record dms_sync_request =
  action :: "string option"
  dmsSystemId :: "string option"
  documentIds :: "string list option"
  since :: "string option"
  options :: "dms_sync_options option"

text \<open>What an upload returns: \<^verbatim>\<open>{externalId, url, metadata}\<close>.\<close>

record dms_result =
  dms_externalId :: jsval
  dms_url :: jsval
  dms_metadata :: json

text \<open>
  One entry of a run's \<^verbatim>\<open>results\<close>. The entries are object literals with the keys
  \<^verbatim>\<open>documentId\<close>, \<^verbatim>\<open>externalId\<close>, \<^verbatim>\<open>status\<close>, \<^verbatim>\<open>action\<close> and \<^verbatim>\<open>error\<close>, not all present in each.
\<close>

record sync_item =
  documentId :: "string option"
  externalId :: jsval
  item_status :: string
  item_action :: "string option"
  item_error :: "string option"

text \<open>What a push or a pull returns.\<close>

record sync_report =
  totalDocuments :: nat
  successful :: nat
  failed :: nat
  report_dryRun :: nat
  results :: "sync_item list"

text \<open>A row of \<^verbatim>\<open>dms_sync_logs\<close>.\<close>

record sync_log =
  log_action :: "string option"
  log_dms_system_id :: "string option"
  log_success :: nat
  log_failed :: nat
  log_total :: nat
  log_details :: json
  log_created_at :: timestamptz

text \<open>What \<^verbatim>\<open>getDMSSyncStatus\<close> returns.\<close>

record dms_sync_status =
  status_dmsSystemId :: "string option"
  lastSync :: "timestamptz option"
  recentSyncs :: "sync_log list"
  status_text :: string

text \<open>The \<^verbatim>\<open>result\<close> of a request, by action.\<close>

datatype sync_result =
  Report sync_report
| FullSync sync_report sync_report
| Status dms_sync_status

subsection \<open>The world outside the function\<close>

text \<open>
  A call of \<^verbatim>\<open>fetch\<close>: for an access token (URL, then the \<^verbatim>\<open>client_id\<close>, \<^verbatim>\<open>client_secret\<close>
  and \<^verbatim>\<open>resource\<close> of the form), or the upload of a file (URL, the \<^verbatim>\<open>Authorization\<close>
  header, body).
\<close>

datatype request =
  TokenRequest string string string string
| UploadRequest string string blob

definition request_url :: "request \<Rightarrow> string" where
  "request_url r =
     (case r of TokenRequest u c s res \<Rightarrow> u | UploadRequest u a body \<Rightarrow> u)"

text \<open>
  \<^verbatim>\<open>fetch\<close> parses the string it is given as a URL, with no base URL to resolve it
  against: tabs and newlines are dropped, leading control characters and spaces are
  skipped, and a string that does not then begin with a scheme (a letter, then letters,
  digits, \<^verbatim>\<open>+\<close>, \<^verbatim>\<open>-\<close> or \<^verbatim>\<open>.\<close>, then a colon) is no URL.
\<close>

definition ascii_alpha :: "char \<Rightarrow> bool" where
  "ascii_alpha c =
     (let n = (of_char c :: nat) in (65 \<le> n \<and> n \<le> 90) \<or> (97 \<le> n \<and> n \<le> 122))"

definition scheme_char :: "char \<Rightarrow> bool" where
  "scheme_char c =
     (let n = (of_char c :: nat) in
      ascii_alpha c \<or> (48 \<le> n \<and> n \<le> 57) \<or> n = 43 \<or> n = 45 \<or> n = 46)"

definition url_input :: "string \<Rightarrow> string" where
  "url_input u =
     dropWhile (\<lambda>c. (of_char c :: nat) \<le> 32)
       (filter (\<lambda>c. (of_char c :: nat) \<noteq> 9 \<and> (of_char c :: nat) \<noteq> 10 \<and>
                     (of_char c :: nat) \<noteq> 13) u)"

definition has_scheme :: "string \<Rightarrow> bool" where
  "has_scheme u =
     (case url_input u of
        [] \<Rightarrow> False
      | c # cs \<Rightarrow>
          ascii_alpha c \<and>
          (case dropWhile scheme_char cs of [] \<Rightarrow> False | x # xs \<Rightarrow> x = CHR '':''))"

text \<open>
  The fields that the function reads of the description \<^verbatim>\<open>d\<close> of an uploaded file:
  \<^verbatim>\<open>UniqueId\<close>, \<^verbatim>\<open>ServerRelativeUrl\<close>, \<^verbatim>\<open>ListId\<close>, \<^verbatim>\<open>ListItemAllFields?.Id\<close> and
  \<^verbatim>\<open>UIVersion\<close>. \<open>None\<close> is \<^verbatim>\<open>undefined\<close>.
\<close>

record file_description =
  UniqueId :: jsval
  ServerRelativeUrl :: jsval
  ListId :: "json option"
  ListItemAllFields_Id :: "json option"
  UIVersion :: "json option"

text \<open>The member \<^verbatim>\<open>d\<close> of a response's JSON: missing, \<^verbatim>\<open>null\<close>, or a value with fields.\<close>

datatype d_member = NoD | NullD | D file_description

text \<open>
  What \<^verbatim>\<open>response.json()\<close> gives: the message of the error that parsing throws when the
  body is not JSON; \<^verbatim>\<open>null\<close>; or a value, of which the function reads the members
  \<^verbatim>\<open>access_token\<close> and \<^verbatim>\<open>d\<close>.
\<close>

datatype payload =
  NotJson string
| JsonNull
| Json jsval d_member

record http_response =
  ok :: bool
  http_status :: nat
  statusText :: string
  payload :: payload

text \<open>\<^verbatim>\<open>fetch\<close> resolves to a response or throws.\<close>

datatype fetch_result = FetchThrows string | Response http_response

text \<open>The error object of a PostgREST call.\<close>

record postgrest_error =
  code :: string
  message :: string

text \<open>
  The state that a run reads and changes: the two tables, the sync log, and the calls of
  \<^verbatim>\<open>fetch\<close> so far, oldest first.
\<close>

record world =
  documents :: "document list"
  applications :: "string list"
  dms_sync_logs :: "sync_log list"
  requests :: "request list"

text \<open>
  Everything the function cannot decide for itself: the clock, the environment
  variables, whether a database or storage call fails and with which message, and what
  \<^verbatim>\<open>fetch\<close> gives for a URL, given the calls before it.
\<close>

record env =
  clock :: timestamptz
  getenv :: "string \<Rightarrow> string option"
  select_error :: "string option"
  download :: "string option \<Rightarrow> string + blob"
  update_error :: "string \<Rightarrow> string option"
  find_error :: "string \<Rightarrow> postgrest_error option"
  insert_error :: "string \<Rightarrow> string option"
  new_id :: "document list \<Rightarrow> string"
  logs_error :: "string option"
  log_insert_error :: "string option"
  respond :: "request list \<Rightarrow> request \<Rightarrow> fetch_result"

subsection \<open>Database calls\<close>

text \<open>
  The select of a push: documents joined (\<^verbatim>\<open>!inner\<close>) with their application, restricted to
  the listed ids when the list is not empty, and otherwise to
  \<^verbatim>\<open>external_dms_id.is.null,needs_sync.eq.true\<close>.
\<close>

definition candidate_documents :: "world \<Rightarrow> string list option \<Rightarrow> document list" where
  "candidate_documents w ids =
     (let joined = filter (\<lambda>d. case application_id d of
                                  None \<Rightarrow> False
                                | Some a \<Rightarrow> a \<in> set (applications w)) (documents w)
      in case ids of
           Some (i # rest) \<Rightarrow> filter (\<lambda>d. doc_id d \<in> set (i # rest)) joined
         | _ \<Rightarrow> filter (\<lambda>d. external_dms_id d = None \<or> needs_sync d = Some True) joined)"

definition select_documents :: "env \<Rightarrow> world \<Rightarrow> string list option \<Rightarrow> string + document list" where
  "select_documents e w ids =
     (case select_error e of
        Some m \<Rightarrow> Inl m
      | None \<Rightarrow> Inr (candidate_documents w ids))"

text \<open>\<^verbatim>\<open>.update(patch).eq('id', i)\<close>: the error, if any, and the table afterwards.\<close>

definition update_documents ::
  "env \<Rightarrow> string \<Rightarrow> (document \<Rightarrow> document) \<Rightarrow> world \<Rightarrow> string option \<times> world" where
  "update_documents e i patch w =
     (case update_error e i of
        Some m \<Rightarrow> (Some m, w)
      | None \<Rightarrow>
          (None, w\<lparr>documents := map (\<lambda>r. if doc_id r = i then patch r else r) (documents w)\<rparr>))"

text \<open>
  \<^verbatim>\<open>.select('*').eq('external_dms_id', x).single()\<close>: the row when exactly one matches, and
  the error \<^verbatim>\<open>PGRST116\<close> when none or several do.
\<close>

definition select_single_by_external_id ::
  "env \<Rightarrow> world \<Rightarrow> string \<Rightarrow> document option \<times> postgrest_error option" where
  "select_single_by_external_id e w x =
     (case find_error e x of
        Some err \<Rightarrow> (None, Some err)
      | None \<Rightarrow>
          (case filter (\<lambda>d. external_dms_id d = Some x) (documents w) of
             [d] \<Rightarrow> (Some d, None)
           | _ \<Rightarrow> (None, Some \<lparr>code = ''PGRST116'',
                               message = ''JSON object requested, multiple (or no) rows returned''\<rparr>)))"

text \<open>
  \<^verbatim>\<open>.insert(row).select().single()\<close>: the database gives the new row its id; the columns
  the insert does not name are empty.
\<close>

definition insert_document ::
  "env \<Rightarrow> external_document \<Rightarrow> world \<Rightarrow> (string + document) \<times> world" where
  "insert_document e extDoc w =
     (case insert_error e (ext_id extDoc) of
        Some m \<Rightarrow> (Inl m, w)
      | None \<Rightarrow>
          (let d = \<lparr>doc_id = new_id e (documents w), application_id = None,
                    storage_path = None, file_name = ext_name extDoc,
                    file_size = ext_size extDoc, file_type = ext_type extDoc,
                    doc_metadata = ext_metadata extDoc, doc_updated_at = Some (clock e),
                    external_dms_id = Some (ext_id extDoc), external_dms_url = None,
                    synced_at = Some (clock e), needs_sync = None,
                    sync_metadata = ext_metadata extDoc\<rparr>
           in (Inr d, w\<lparr>documents := documents w @ [d]\<rparr>)))"

subsection \<open>Calls to the DMS\<close>

text \<open>A member of an object that is written as JSON: none when the value is \<^verbatim>\<open>undefined\<close>.\<close>

definition json_field :: "string \<Rightarrow> json option \<Rightarrow> (string \<times> json) list" where
  "json_field k v = (case v of None \<Rightarrow> [] | Some j \<Rightarrow> [(k, j)])"

text \<open>
  \<^verbatim>\<open>fetch\<close>: a string that is no URL makes it throw a \<^verbatim>\<open>TypeError\<close>; for any other the
  environment says what comes back. Either way the call is on record.
\<close>

definition quote :: char where
  "quote = CHR 0x27"

definition fetch :: "env \<Rightarrow> request \<Rightarrow> world \<Rightarrow> fetch_result \<times> world" where
  "fetch e req w =
     (if has_scheme (request_url req) then respond e (requests w) req
      else FetchThrows (''Invalid URL: '' @ [quote] @ request_url req @ [quote]),
      w\<lparr>requests := requests w @ [req]\<rparr>)"

definition token_url :: "dms_auth_config \<Rightarrow> string" where
  "token_url auth =
     ''https://accounts.accesscontrol.windows.net/'' @ tenantId auth @ ''/tokens/OAuth/2''"

definition token_request :: "dms_auth_config \<Rightarrow> request" where
  "token_request auth =
     TokenRequest (token_url auth) (clientId auth @ ''@'' @ tenantId auth) (clientSecret auth)
       (''00000003-0000-0ff1-ce00-000000000000/government.sharepoint.com@'' @ tenantId auth)"

text \<open>\<^verbatim>\<open>getSharePointAccessToken\<close>: whatever \<^verbatim>\<open>result.access_token\<close> is.\<close>

definition getSharePointAccessToken ::
  "env \<Rightarrow> dms_auth_config \<Rightarrow> world \<Rightarrow> (string + jsval) \<times> world" where
  "getSharePointAccessToken e auth w =
     (case fetch e (token_request auth) w of
        (FetchThrows m, w1) \<Rightarrow> (Inl m, w1)
      | (Response r, w1) \<Rightarrow>
          if \<not> ok r
          then (Inl (''Failed to get SharePoint access token: '' @ statusText r), w1)
          else (case payload r of
                  NotJson m \<Rightarrow> (Inl m, w1)
                | JsonNull \<Rightarrow>
                    (Inl ''Cannot read properties of null (reading 'access_token')'', w1)
                | Json access_token d \<Rightarrow> (Inr access_token, w1)))"

definition upload_url :: "dms_config \<Rightarrow> document \<Rightarrow> string" where
  "upload_url config doc =
     endpoint config @
     ''/_api/web/GetFolderByServerRelativeUrl('/Shared Documents')/Files/add(url='' @
     [quote] @ file_name doc @ [quote] @ '',overwrite=true)''"

definition upload_request :: "dms_config \<Rightarrow> document \<Rightarrow> jsval \<Rightarrow> blob \<Rightarrow> request" where
  "upload_request config doc accessToken fileData =
     UploadRequest (upload_url config doc) (''Bearer '' @ show_jsval accessToken) fileData"

text \<open>
  \<^verbatim>\<open>uploadToSharePoint\<close>. Reading \<^verbatim>\<open>result.d.UniqueId\<close> throws when there is no \<^verbatim>\<open>d\<close>; a
  \<^verbatim>\<open>d\<close> without a \<^verbatim>\<open>UniqueId\<close> gives a result whose \<^verbatim>\<open>externalId\<close> is \<^verbatim>\<open>undefined\<close>.
\<close>

definition uploadToSharePoint ::
  "env \<Rightarrow> dms_config \<Rightarrow> document \<Rightarrow> blob \<Rightarrow> world \<Rightarrow> (string + dms_result) \<times> world" where
  "uploadToSharePoint e config doc fileData w =
     (case getSharePointAccessToken e (authentication config) w of
        (Inl m, w1) \<Rightarrow> (Inl m, w1)
      | (Inr accessToken, w1) \<Rightarrow>
          (case fetch e (upload_request config doc accessToken fileData) w1 of
             (FetchThrows m, w2) \<Rightarrow> (Inl m, w2)
           | (Response r, w2) \<Rightarrow>
               if \<not> ok r then (Inl (''SharePoint upload failed: '' @ statusText r), w2)
               else (case payload r of
                       NotJson m \<Rightarrow> (Inl m, w2)
                     | JsonNull \<Rightarrow> (Inl ''Cannot read properties of null (reading 'd')'', w2)
                     | Json access_token NoD \<Rightarrow>
                         (Inl ''Cannot read properties of undefined (reading 'UniqueId')'', w2)
                     | Json access_token NullD \<Rightarrow>
                         (Inl ''Cannot read properties of null (reading 'UniqueId')'', w2)
                     | Json access_token (D d) \<Rightarrow>
                         (Inr \<lparr>dms_externalId = UniqueId d, dms_url = ServerRelativeUrl d,
                               dms_metadata =
                                 JObj [(''sharepoint'',
                                   JObj (json_field ''listId'' (ListId d) @
                                         json_field ''itemId'' (ListItemAllFields_Id d) @
                                         json_field ''version'' (UIVersion d)))]\<rparr>, w2))))"

text \<open>The decimal digits of \<^verbatim>\<open>Date.now()\<close>.\<close>

fun digits :: "nat \<Rightarrow> string" where
  "digits n =
     (if n < 10 then [char_of (48 + n)]
      else digits (n div 10) @ [char_of (48 + n mod 10)])"

definition show_int :: "int \<Rightarrow> string" where
  "show_int i = (if i < 0 then CHR ''-'' # digits (nat (- i)) else digits (nat i))"

definition uploadToFileNet ::
  "env \<Rightarrow> dms_config \<Rightarrow> document \<Rightarrow> blob \<Rightarrow> world \<Rightarrow> (string + dms_result) \<times> world" where
  "uploadToFileNet e config doc fileData w =
     (Inr \<lparr>dms_externalId = Str (''filenet_'' @ show_int (clock e)),
           dms_url = Str (endpoint config @ ''/documents/'' @ doc_id doc),
           dms_metadata =
             JObj [(''filenet'', JObj [(''objectId'', JStr (''filenet_'' @ show_int (clock e)))])]\<rparr>,
      w)"

definition uploadToDocumentum ::
  "env \<Rightarrow> dms_config \<Rightarrow> document \<Rightarrow> blob \<Rightarrow> world \<Rightarrow> (string + dms_result) \<times> world" where
  "uploadToDocumentum e config doc fileData w =
     (Inr \<lparr>dms_externalId = Str (''documentum_'' @ show_int (clock e)),
           dms_url = Str (endpoint config @ ''/documents/'' @ doc_id doc),
           dms_metadata =
             JObj [(''documentum'',
               JObj [(''objectId'', JStr (''documentum_'' @ show_int (clock e)))])]\<rparr>,
      w)"

definition uploadToExternalDMS ::
  "env \<Rightarrow> dms_config \<Rightarrow> document \<Rightarrow> blob \<Rightarrow> world \<Rightarrow> (string + dms_result) \<times> world" where
  "uploadToExternalDMS e config doc fileData w =
     (case config_type config of
        sharepoint \<Rightarrow> uploadToSharePoint e config doc fileData w
      | filenet \<Rightarrow> uploadToFileNet e config doc fileData w
      | documentum \<Rightarrow> uploadToDocumentum e config doc fileData w
      | custom \<Rightarrow> (Inl ''Unsupported DMS type: custom'', w))"

text \<open>
  \<^verbatim>\<open>fetchDocumentsFromDMS\<close>: the source has a placeholder where the call to the DMS would
  be, and returns the empty list for every configuration and time.
\<close>

definition fetchDocumentsFromDMS ::
  "env \<Rightarrow> dms_config \<Rightarrow> string option \<Rightarrow> external_document list" where
  "fetchDocumentsFromDMS e config since_ts = []"

definition mapExternalDocumentToLocal :: "env \<Rightarrow> external_document \<Rightarrow> document \<Rightarrow> document" where
  "mapExternalDocumentToLocal e extDoc r =
     r\<lparr>file_name := ext_name extDoc, file_size := ext_size extDoc,
       file_type := ext_type extDoc, doc_metadata := ext_metadata extDoc,
       doc_updated_at := Some (clock e)\<rparr>"

subsection \<open>Configurations\<close>

text \<open>\<^verbatim>\<open>Deno.env.get(k) ?? \<close> the empty string.\<close>

definition env_or_empty :: "env \<Rightarrow> string \<Rightarrow> string" where
  "env_or_empty e k = (case getenv e k of None \<Rightarrow> [] | Some v \<Rightarrow> v)"

definition getDMSConfigurations :: "env \<Rightarrow> dms_config list" where
  "getDMSConfigurations e =
     [\<lparr>systemId = ''sharepoint-main'',
       config_name = ''Primary SharePoint'',
       config_type = sharepoint,
       endpoint = env_or_empty e ''SHAREPOINT_ENDPOINT'',
       authentication =
         \<lparr>auth_type = ''oauth2'',
          clientId = env_or_empty e ''SHAREPOINT_CLIENT_ID'',
          clientSecret = env_or_empty e ''SHAREPOINT_CLIENT_SECRET'',
          tenantId = env_or_empty e ''SHAREPOINT_TENANT_ID''\<rparr>,
       syncSettings =
         \<lparr>syncInterval = 15, batchSize = 50, retryAttempts = 3,
          settings_conflictResolution = manual, enableRealTimeSync = True\<rparr>\<rparr>]"

text \<open>
  \<^verbatim>\<open>dmsSystemId ? dmsConfigs.find(c => c.systemId === dmsSystemId) : dmsConfigs[0]\<close>:
  a missing or empty id selects the first configuration.
\<close>

definition find_config :: "env \<Rightarrow> string option \<Rightarrow> dms_config option" where
  "find_config e sys =
     (let dmsConfigs = getDMSConfigurations e;
          first = (case dmsConfigs of [] \<Rightarrow> None | c # cs \<Rightarrow> Some c)
      in case sys of
           None \<Rightarrow> first
         | Some s \<Rightarrow> if s = [] then first else find (\<lambda>c. systemId c = s) dmsConfigs)"

text \<open>A template string renders a missing value as the word \<^verbatim>\<open>undefined\<close>.\<close>

definition show_undefined :: "string option \<Rightarrow> string" where
  "show_undefined s = (case s of None \<Rightarrow> ''undefined'' | Some v \<Rightarrow> v)"

text \<open>An optional flag in a condition: only \<^verbatim>\<open>true\<close> takes the branch.\<close>

definition truthy :: "bool option \<Rightarrow> bool" where
  "truthy b = (b = Some True)"

subsection \<open>Push\<close>

text \<open>
  The body of the \<^verbatim>\<open>try\<close> block of one iteration of \<^verbatim>\<open>pushDocumentsToDMS\<close>: \<open>Inl\<close> is the
  message of the error it throws, \<open>Inr\<close> the entry it pushes onto \<^verbatim>\<open>results\<close>.
\<close>

definition push_try ::
  "env \<Rightarrow> dms_config \<Rightarrow> dms_sync_options \<Rightarrow> world \<Rightarrow> document \<Rightarrow> (string + sync_item) \<times> world" where
  "push_try e dmsConfig opts w doc =
     (if truthy (dryRun opts)
      then (Inr \<lparr>documentId = Some (doc_id doc), externalId = Undefined,
                 item_status = ''dry_run'', item_action = Some ''would_sync'',
                 item_error = None\<rparr>, w)
      else
        (case download e (storage_path doc) of
           Inl m \<Rightarrow> (Inl (''Failed to download document: '' @ m), w)
         | Inr fileData \<Rightarrow>
             (case uploadToExternalDMS e dmsConfig doc fileData w of
                (Inl m, w1) \<Rightarrow> (Inl m, w1)
              | (Inr dmsResult, w1) \<Rightarrow>
                  (case update_documents e (doc_id doc)
                          (\<lambda>r. r\<lparr>external_dms_id := assign (dms_externalId dmsResult)
                                                      (external_dms_id r),
                                 external_dms_url := assign (dms_url dmsResult)
                                                       (external_dms_url r),
                                 synced_at := Some (clock e),
                                 needs_sync := Some False,
                                 sync_metadata := Some (dms_metadata dmsResult)\<rparr>) w1 of
                     (Some m, w2) \<Rightarrow> (Inl (''Failed to update document: '' @ m), w2)
                   | (None, w2) \<Rightarrow>
                       (Inr \<lparr>documentId = Some (doc_id doc),
                             externalId = dms_externalId dmsResult,
                             item_status = ''success'', item_action = Some ''synced'',
                             item_error = None\<rparr>, w2)))))"

text \<open>One iteration: the \<^verbatim>\<open>try\<close> block and its \<^verbatim>\<open>catch\<close>.\<close>

definition push_item ::
  "env \<Rightarrow> dms_config \<Rightarrow> dms_sync_options \<Rightarrow> world \<Rightarrow> document \<Rightarrow> sync_item \<times> world" where
  "push_item e dmsConfig opts w doc =
     (case push_try e dmsConfig opts w doc of
        (Inr item, w') \<Rightarrow> (item, w')
      | (Inl m, w') \<Rightarrow>
          (\<lparr>documentId = Some (doc_id doc), externalId = Undefined, item_status = ''error'',
            item_action = None, item_error = Some m\<rparr>, w'))"

text \<open>\<^verbatim>\<open>for (const doc of documents)\<close>, over the rows as the select returned them.\<close>

fun push_loop ::
  "env \<Rightarrow> dms_config \<Rightarrow> dms_sync_options \<Rightarrow> document list \<Rightarrow> sync_item list \<times> world \<Rightarrow>
   sync_item list \<times> world" where
  "push_loop e dmsConfig opts [] (res, w) = (res, w)"
| "push_loop e dmsConfig opts (doc # docs) (res, w) =
     (case push_item e dmsConfig opts w doc of
        (item, w') \<Rightarrow> push_loop e dmsConfig opts docs (res @ [item], w'))"

definition count_status :: "string \<Rightarrow> sync_item list \<Rightarrow> nat" where
  "count_status s res = length (filter (\<lambda>r. item_status r = s) res)"

definition make_report :: "nat \<Rightarrow> sync_item list \<Rightarrow> sync_report" where
  "make_report n res =
     \<lparr>totalDocuments = n,
      successful = count_status ''success'' res,
      failed = count_status ''error'' res,
      report_dryRun = count_status ''dry_run'' res,
      results = res\<rparr>"

text \<open>
  \<^verbatim>\<open>pushDocumentsToDMS\<close>: \<open>Inl\<close> is the message of an error thrown outside the loop, which
  ends the run without a report.
\<close>

definition pushDocumentsToDMS ::
  "env \<Rightarrow> world \<Rightarrow> string option \<Rightarrow> string list option \<Rightarrow> dms_sync_options \<Rightarrow>
   (string + sync_report) \<times> world" where
  "pushDocumentsToDMS e w sys ids opts =
     (case select_documents e w ids of
        Inl m \<Rightarrow> (Inl (''Failed to fetch documents: '' @ m), w)
      | Inr docs \<Rightarrow>
          (case find_config e sys of
             None \<Rightarrow> (Inl (''DMS configuration not found: '' @ show_undefined sys), w)
           | Some dmsConfig \<Rightarrow>
               (case push_loop e dmsConfig opts docs ([], w) of
                  (res, w') \<Rightarrow> (Inr (make_report (length docs) res), w'))))"

subsection \<open>Pull\<close>

text \<open>The body of the \<^verbatim>\<open>try\<close> block of one iteration of \<^verbatim>\<open>pullDocumentsFromDMS\<close>.\<close>

definition pull_try ::
  "env \<Rightarrow> dms_sync_options \<Rightarrow> world \<Rightarrow> external_document \<Rightarrow> (string + sync_item) \<times> world" where
  "pull_try e opts w extDoc =
     (if truthy (dryRun opts)
      then (Inr \<lparr>documentId = None, externalId = Str (ext_id extDoc),
                 item_status = ''dry_run'', item_action = Some ''would_update'',
                 item_error = None\<rparr>, w)
      else
        (case select_single_by_external_id e w (ext_id extDoc) of
           (existingDoc, findError) \<Rightarrow>
             (case (case findError of
                      Some err \<Rightarrow> if code err \<noteq> ''PGRST116'' then Some (message err) else None
                    | None \<Rightarrow> None) of
                Some m \<Rightarrow> (Inl (''Database error: '' @ m), w)
              | None \<Rightarrow>
                  (case existingDoc of
                     Some existing \<Rightarrow>
                       (case update_documents e (doc_id existing)
                               (\<lambda>r. (mapExternalDocumentToLocal e extDoc r)
                                      \<lparr>synced_at := Some (clock e),
                                       sync_metadata := ext_metadata extDoc\<rparr>) w of
                          (Some m, w1) \<Rightarrow> (Inl (''Failed to update document: '' @ m), w1)
                        | (None, w1) \<Rightarrow>
                            (Inr \<lparr>documentId = Some (doc_id existing),
                                  externalId = Str (ext_id extDoc),
                                  item_status = ''success'', item_action = Some ''updated'',
                                  item_error = None\<rparr>, w1))
                   | None \<Rightarrow>
                       (case insert_document e extDoc w of
                          (Inl m, w1) \<Rightarrow> (Inl (''Failed to create document: '' @ m), w1)
                        | (Inr newDoc, w1) \<Rightarrow>
                            (Inr \<lparr>documentId = Some (doc_id newDoc),
                                  externalId = Str (ext_id extDoc),
                                  item_status = ''success'', item_action = Some ''created'',
                                  item_error = None\<rparr>, w1))))))"

definition pull_item ::
  "env \<Rightarrow> dms_sync_options \<Rightarrow> world \<Rightarrow> external_document \<Rightarrow> sync_item \<times> world" where
  "pull_item e opts w extDoc =
     (case pull_try e opts w extDoc of
        (Inr item, w') \<Rightarrow> (item, w')
      | (Inl m, w') \<Rightarrow>
          (\<lparr>documentId = None, externalId = Str (ext_id extDoc), item_status = ''error'',
            item_action = None, item_error = Some m\<rparr>, w'))"

fun pull_loop ::
  "env \<Rightarrow> dms_sync_options \<Rightarrow> external_document list \<Rightarrow> sync_item list \<times> world \<Rightarrow>
   sync_item list \<times> world" where
  "pull_loop e opts [] (res, w) = (res, w)"
| "pull_loop e opts (extDoc # extDocs) (res, w) =
     (case pull_item e opts w extDoc of
        (item, w') \<Rightarrow> pull_loop e opts extDocs (res @ [item], w'))"

definition pullDocumentsFromDMS ::
  "env \<Rightarrow> world \<Rightarrow> string option \<Rightarrow> string option \<Rightarrow> dms_sync_options \<Rightarrow>
   (string + sync_report) \<times> world" where
  "pullDocumentsFromDMS e w sys since_ts opts =
     (case find_config e sys of
        None \<Rightarrow> (Inl (''DMS configuration not found: '' @ show_undefined sys), w)
      | Some dmsConfig \<Rightarrow>
          (let externalDocuments = fetchDocumentsFromDMS e dmsConfig since_ts in
           case pull_loop e opts externalDocuments ([], w) of
             (res, w') \<Rightarrow> (Inr (make_report (length externalDocuments) res), w')))"

subsection \<open>Status and the sync log\<close>

text \<open>
  \<^verbatim>\<open>getDMSSyncStatus\<close>: the ten latest log rows of the system. The \<^verbatim>\<open>.eq\<close> filter is sent
  as text, so that a missing system id asks for the rows whose id is the word
  \<^verbatim>\<open>undefined\<close>.
\<close>

definition getDMSSyncStatus :: "env \<Rightarrow> world \<Rightarrow> string option \<Rightarrow> string + dms_sync_status" where
  "getDMSSyncStatus e w sys =
     (case logs_error e of
        Some m \<Rightarrow> Inl (''Failed to get sync status: '' @ m)
      | None \<Rightarrow>
          (let syncLogs =
                 take 10 (rev (sort_key log_created_at
                    (filter (\<lambda>l. log_dms_system_id l = Some (show_undefined sys))
                       (dms_sync_logs w))))
           in Inr \<lparr>status_dmsSystemId = sys,
                   lastSync = (case syncLogs of [] \<Rightarrow> None | l # ls \<Rightarrow> Some (log_created_at l)),
                   recentSyncs = syncLogs,
                   status_text = ''active''\<rparr>))"

text \<open>The objects as JSON. A key whose value is \<^verbatim>\<open>undefined\<close> is left out.\<close>

definition opt_field :: "string \<Rightarrow> string option \<Rightarrow> (string \<times> json) list" where
  "opt_field k v = (case v of None \<Rightarrow> [] | Some s \<Rightarrow> [(k, JStr s)])"

definition jsval_field :: "string \<Rightarrow> jsval \<Rightarrow> (string \<times> json) list" where
  "jsval_field k v =
     (case v of Undefined \<Rightarrow> [] | Null \<Rightarrow> [(k, JNull)] | Str s \<Rightarrow> [(k, JStr s)])"

definition item_json :: "sync_item \<Rightarrow> json" where
  "item_json i =
     JObj (opt_field ''documentId'' (documentId i) @ jsval_field ''externalId'' (externalId i) @
           [(''status'', JStr (item_status i))] @ opt_field ''action'' (item_action i) @
           opt_field ''error'' (item_error i))"

definition report_json :: "sync_report \<Rightarrow> json" where
  "report_json r =
     JObj [(''totalDocuments'', JNum (int (totalDocuments r))),
           (''successful'', JNum (int (successful r))),
           (''failed'', JNum (int (failed r))),
           (''dryRun'', JNum (int (report_dryRun r))),
           (''results'', JArr (map item_json (results r)))]"

definition log_json :: "sync_log \<Rightarrow> json" where
  "log_json l =
     JObj (opt_field ''action'' (log_action l) @
           [(''dms_system_id'', (case log_dms_system_id l of None \<Rightarrow> JNull | Some s \<Rightarrow> JStr s)),
            (''success'', JNum (int (log_success l))),
            (''failed'', JNum (int (log_failed l))),
            (''total'', JNum (int (log_total l))),
            (''details'', log_details l),
            (''created_at'', JTime (log_created_at l))])"

definition status_json :: "dms_sync_status \<Rightarrow> json" where
  "status_json s =
     JObj (opt_field ''dmsSystemId'' (status_dmsSystemId s) @
           (case lastSync s of None \<Rightarrow> [] | Some t \<Rightarrow> [(''lastSync'', JTime t)]) @
           [(''recentSyncs'', JArr (map log_json (recentSyncs s))),
            (''status'', JStr (status_text s))])"

fun result_json :: "sync_result \<Rightarrow> json" where
  "result_json (Report r) = report_json r"
| "result_json (FullSync p q) = JObj [(''push'', report_json p), (''pull'', report_json q)]"
| "result_json (Status s) = status_json s"

text \<open>
  \<^verbatim>\<open>logSyncOperation\<close>. Only a push or pull report has the counts; \<^verbatim>\<open>|| 0\<close> covers the
  rest. A failed insert is not thrown: it leaves the log as it was.
\<close>

definition logSyncOperation ::
  "env \<Rightarrow> string option \<Rightarrow> string option \<Rightarrow> sync_result \<Rightarrow> world \<Rightarrow> world" where
  "logSyncOperation e act sys result w =
     (case log_insert_error e of
        Some m \<Rightarrow> w
      | None \<Rightarrow>
          w\<lparr>dms_sync_logs := dms_sync_logs w @
              [\<lparr>log_action = act, log_dms_system_id = sys,
                log_success = (case result of Report r \<Rightarrow> successful r | _ \<Rightarrow> 0),
                log_failed = (case result of Report r \<Rightarrow> failed r | _ \<Rightarrow> 0),
                log_total = (case result of Report r \<Rightarrow> totalDocuments r | _ \<Rightarrow> 0),
                log_details = result_json result,
                log_created_at = clock e\<rparr>]\<rparr>)"

subsection \<open>The request handler\<close>

text \<open>
  The request as the handler sees it: the HTTP method, and what reading the body with
  \<^verbatim>\<open>req.json()\<close> gives, the message of the error it throws or the request object.
\<close>

record sync_http_request =
  http_method :: string
  json_body :: "string + dms_sync_request"

record sync_http_response =
  response_status :: nat
  response_body :: "json option"

text \<open>The \<^verbatim>\<open>switch (action)\<close> of the handler.\<close>

definition dispatch ::
  "env \<Rightarrow> world \<Rightarrow> dms_sync_request \<Rightarrow> (string + sync_result) \<times> world" where
  "dispatch e w rq =
     (let opts = (case options rq of
                    None \<Rightarrow> \<lparr>dryRun = None, forceSync = None, conflictResolution = None\<rparr>
                  | Some opts \<Rightarrow> opts)
      in
      if action rq = Some ''push'' then
        (case pushDocumentsToDMS e w (dmsSystemId rq) (documentIds rq) opts of
           (Inl m, w1) \<Rightarrow> (Inl m, w1)
         | (Inr r, w1) \<Rightarrow> (Inr (Report r), w1))
      else if action rq = Some ''pull'' then
        (case pullDocumentsFromDMS e w (dmsSystemId rq) (since rq) opts of
           (Inl m, w1) \<Rightarrow> (Inl m, w1)
         | (Inr r, w1) \<Rightarrow> (Inr (Report r), w1))
      else if action rq = Some ''full_sync'' then
        (case pushDocumentsToDMS e w (dmsSystemId rq) (documentIds rq) opts of
           (Inl m, w1) \<Rightarrow> (Inl m, w1)
         | (Inr pushResult, w1) \<Rightarrow>
             (case pullDocumentsFromDMS e w1 (dmsSystemId rq) (since rq) opts of
                (Inl m, w2) \<Rightarrow> (Inl m, w2)
              | (Inr pullResult, w2) \<Rightarrow> (Inr (FullSync pushResult pullResult), w2)))
      else if action rq = Some ''status'' then
        (case getDMSSyncStatus e w (dmsSystemId rq) of
           Inl m \<Rightarrow> (Inl m, w)
         | Inr s \<Rightarrow> (Inr (Status s), w))
      else (Inl (''Invalid sync action: '' @ show_undefined (action rq)), w))"

definition error_response :: "env \<Rightarrow> string \<Rightarrow> sync_http_response" where
  "error_response e m =
     \<lparr>response_status = 400,
      response_body = Some (JObj [(''success'', JBool False), (''error'', JStr m),
                                  (''timestamp'', JTime (clock e))])\<rparr>"

definition success_response ::
  "env \<Rightarrow> dms_sync_request \<Rightarrow> sync_result \<Rightarrow> sync_http_response" where
  "success_response e rq result =
     \<lparr>response_status = 200,
      response_body = Some (JObj ([(''success'', JBool True)] @
                                  opt_field ''action'' (action rq) @
                                  opt_field ''dmsSystemId'' (dmsSystemId rq) @
                                  [(''result'', result_json result),
                                   (''timestamp'', JTime (clock e))]))\<rparr>"

text \<open>
  \<^verbatim>\<open>createClient(Deno.env.get('SUPABASE_URL') ?? '', Deno.env.get('SUPABASE_SERVICE_ROLE_KEY') ?? '')\<close>:
  the library throws when either string is empty. What the database calls of the client
  do is the environment's to say.
\<close>

definition createClient :: "env \<Rightarrow> string + unit" where
  "createClient e =
     (if env_or_empty e ''SUPABASE_URL'' = [] then Inl ''supabaseUrl is required.''
      else if env_or_empty e ''SUPABASE_SERVICE_ROLE_KEY'' = []
        then Inl ''supabaseKey is required.''
      else Inr ())"

text \<open>The handler passed to \<^verbatim>\<open>serve\<close>.\<close>

definition serve :: "env \<Rightarrow> world \<Rightarrow> sync_http_request \<Rightarrow> sync_http_response \<times> world" where
  "serve e w req =
     (if http_method req = ''OPTIONS'' then (\<lparr>response_status = 200, response_body = None\<rparr>, w)
      else
        (case createClient e of
           Inl m \<Rightarrow> (error_response e m, w)
         | Inr supabase \<Rightarrow>
             (case json_body req of
                Inl m \<Rightarrow> (error_response e m, w)
              | Inr rq \<Rightarrow>
                  (case dispatch e w rq of
                     (Inl m, w1) \<Rightarrow> (error_response e m, w1)
                   | (Inr result, w1) \<Rightarrow>
                       (success_response e rq result,
                        logSyncOperation e (action rq) (dmsSystemId rq) result w1)))))"

subsection \<open>Notions used to state the properties of a run\<close>

text \<open>An entry carries one of the three statuses that the reports count.\<close>

definition known_status :: "sync_item \<Rightarrow> bool" where
  "known_status r =
     (item_status r = ''success'' \<or> item_status r = ''error'' \<or> item_status r = ''dry_run'')"

text \<open>A row that the default selection of a push passes over.\<close>

definition in_sync :: "document \<Rightarrow> bool" where
  "in_sync d = (external_dms_id d \<noteq> None \<and> needs_sync d = Some False)"

definition all_in_sync :: "string \<Rightarrow> world \<Rightarrow> bool" where
  "all_in_sync i w = (\<forall>r \<in> set (documents w). doc_id r = i \<longrightarrow> in_sync r)"

text \<open>
  The upload calls among the calls of \<^verbatim>\<open>fetch\<close>, and those for a given document under a
  given configuration.
\<close>

definition is_upload :: "request \<Rightarrow> bool" where
  "is_upload r = (case r of UploadRequest u a body \<Rightarrow> True | _ \<Rightarrow> False)"

definition uploads_of :: "dms_config \<Rightarrow> document \<Rightarrow> request list \<Rightarrow> request list" where
  "uploads_of config doc rs =
     filter (\<lambda>r. case r of UploadRequest u a body \<Rightarrow> u = upload_url config doc | _ \<Rightarrow> False) rs"


definition world_after_pull ::
  "env \<Rightarrow> dms_sync_options \<Rightarrow> world \<Rightarrow> external_document list \<Rightarrow> world" where
  "world_after_pull e opts w extDocs =
     foldl (\<lambda>w extDoc. snd (pull_item e opts w extDoc)) w extDocs"

subsection \<open>Example rows and histories\<close>

definition app_draft :: application where
  "app_draft =
     \<lparr>status = Some draft, submitted_at = None, review_started_at = None,
      decision_date = None, expiry_date = None, form_data = Some (JObj []), metadata = None,
      created_at = Some 5, updated_at = Some 5, version = Some 1\<rparr>"

definition app_submitted :: application where
  "app_submitted =
     \<lparr>status = Some submitted, submitted_at = Some 10, review_started_at = None,
      decision_date = None, expiry_date = None, form_data = Some (JObj []), metadata = None,
      created_at = Some 5, updated_at = Some 10, version = Some 2\<rparr>"

definition app_under_review :: application where
  "app_under_review =
     \<lparr>status = Some under_review, submitted_at = Some 10, review_started_at = Some 12,
      decision_date = None, expiry_date = None, form_data = Some (JObj []), metadata = None,
      created_at = Some 5, updated_at = Some 12, version = Some 3\<rparr>"

definition app_approved :: application where
  "app_approved =
     \<lparr>status = Some approved, submitted_at = Some 10, review_started_at = Some 12,
      decision_date = Some 30, expiry_date = None, form_data = Some (JObj []), metadata = None,
      created_at = Some 5, updated_at = Some 30, version = Some 4\<rparr>"

definition app_appealed :: application where
  "app_appealed =
     \<lparr>status = Some appealed, submitted_at = Some 10, review_started_at = Some 12,
      decision_date = Some 30, expiry_date = None, form_data = Some (JObj []), metadata = None,
      created_at = Some 5, updated_at = Some 40, version = Some 5\<rparr>"

text \<open>A draft that was inserted with \<^verbatim>\<open>version\<close> \<^verbatim>\<open>NULL\<close>.\<close>

definition app_unversioned :: application where
  "app_unversioned =
     \<lparr>status = Some draft, submitted_at = None, review_started_at = None,
      decision_date = None, expiry_date = None, form_data = Some (JObj []), metadata = None,
      created_at = Some 5, updated_at = Some 5, version = None\<rparr>"





subsection \<open>Example documents, worlds and environments\<close>

definition local_doc :: "string \<Rightarrow> string \<Rightarrow> document" where
  "local_doc i n =
     \<lparr>doc_id = i, application_id = Some ''app-1'', storage_path = Some (''files/'' @ n),
      file_name = n, file_size = 100, file_type = ''pdf'', doc_metadata = None,
      doc_updated_at = None, external_dms_id = None, external_dms_url = None,
      synced_at = None, needs_sync = None, sync_metadata = None\<rparr>"

definition doc_a :: document where
  "doc_a = local_doc ''doc-1'' ''a.pdf''"

definition doc_b :: document where
  "doc_b = local_doc ''doc-2'' ''b.pdf''"

definition doc_c :: document where
  "doc_c = local_doc ''doc-3'' ''c.pdf''"

definition three_docs :: world where
  "three_docs =
     \<lparr>documents = [doc_a, doc_b, doc_c],
      applications = [''app-1''], dms_sync_logs = [], requests = []\<rparr>"

definition one_doc :: world where
  "one_doc =
     \<lparr>documents = [doc_a], applications = [''app-1''], dms_sync_logs = [], requests = []\<rparr>"

text \<open>The environment variables of a deployment.\<close>

definition variables :: "string \<Rightarrow> string option" where
  "variables =
     map_of
       [(''SUPABASE_URL'', ''https://project.supabase.co''),
        (''SUPABASE_SERVICE_ROLE_KEY'', ''service-role-key''),
        (''SHAREPOINT_ENDPOINT'', ''https://government.sharepoint.com/sites/immigration''),
        (''SHAREPOINT_CLIENT_ID'', ''client-id''),
        (''SHAREPOINT_CLIENT_SECRET'', ''client-secret''),
        (''SHAREPOINT_TENANT_ID'', ''tenant-id'')]"

text \<open>The one configuration, under these variables.\<close>

definition main_config :: dms_config where
  "main_config =
     \<lparr>systemId = ''sharepoint-main'', config_name = ''Primary SharePoint'',
      config_type = sharepoint,
      endpoint = ''https://government.sharepoint.com/sites/immigration'',
      authentication =
        \<lparr>auth_type = ''oauth2'', clientId = ''client-id'', clientSecret = ''client-secret'',
         tenantId = ''tenant-id''\<rparr>,
      syncSettings =
        \<lparr>syncInterval = 15, batchSize = 50, retryAttempts = 3,
         settings_conflictResolution = manual, enableRealTimeSync = True\<rparr>\<rparr>"

definition token_ok :: fetch_result where
  "token_ok = Response \<lparr>ok = True, http_status = 200, statusText = ''OK'',
                         payload = Json (Str ''token'') NoD\<rparr>"

text \<open>The answer to the \<open>n\<close>-th upload: SharePoint gives every file an id of its own.\<close>

definition upload_ok :: "nat \<Rightarrow> fetch_result" where
  "upload_ok n =
     Response \<lparr>ok = True, http_status = 200, statusText = ''OK'',
               payload = Json Undefined
                 (D \<lparr>UniqueId = Str (''sp-'' @ digits n),
                     ServerRelativeUrl = Str (''/Shared Documents/'' @ digits n),
                     ListId = Some (JStr ''list''), ListItemAllFields_Id = None,
                     UIVersion = Some (JNum 1)\<rparr>)\<rparr>"

text \<open>A 200 whose description of the file has no \<^verbatim>\<open>UniqueId\<close>.\<close>

definition upload_anonymous :: fetch_result where
  "upload_anonymous =
     Response \<lparr>ok = True, http_status = 200, statusText = ''OK'',
               payload = Json Undefined
                 (D \<lparr>UniqueId = Undefined, ServerRelativeUrl = Str ''/Shared Documents/a.pdf'',
                     ListId = None, ListItemAllFields_Id = None, UIVersion = None\<rparr>)\<rparr>"

definition unavailable :: fetch_result where
  "unavailable = Response \<lparr>ok = False, http_status = 503, statusText = ''Service Unavailable'',
                            payload = NotJson ''Unexpected end of JSON input''\<rparr>"

text \<open>An environment in which nothing fails.\<close>

definition quiet_env :: env where
  "quiet_env =
     \<lparr>clock = 1000, getenv = variables, select_error = None,
      download = (\<lambda>p. Inr ''bytes''), update_error = (\<lambda>i. None),
      find_error = (\<lambda>x. None), insert_error = (\<lambda>x. None),
      new_id = (\<lambda>ds. ''new-'' @ digits (length ds)), logs_error = None,
      log_insert_error = None,
      respond = (\<lambda>sent r. case r of
                    TokenRequest u c s res \<Rightarrow> token_ok
                  | UploadRequest u a body \<Rightarrow> upload_ok (Suc (length (filter is_upload sent))))\<rparr>"

text \<open>SharePoint answers every upload of \<^verbatim>\<open>b.pdf\<close> with a 503.\<close>

definition down_env :: env where
  "down_env =
     quiet_env\<lparr>respond := (\<lambda>sent r. case r of
                    TokenRequest u c s res \<Rightarrow> token_ok
                  | UploadRequest u a body \<Rightarrow>
                      if u = upload_url main_config doc_b then unavailable
                      else upload_ok (Suc (length (filter is_upload sent))))\<rparr>"

text \<open>
  SharePoint answers the first upload of \<^verbatim>\<open>b.pdf\<close> with a 503, and later ones with a 200.
\<close>

definition flaky_env :: env where
  "flaky_env =
     quiet_env\<lparr>respond := (\<lambda>sent r. case r of
                    TokenRequest u c s res \<Rightarrow> token_ok
                  | UploadRequest u a body \<Rightarrow>
                      if u = upload_url main_config doc_b \<and> uploads_of main_config doc_b sent = []
                      then unavailable
                      else upload_ok (Suc (length (filter is_upload sent))))\<rparr>"

text \<open>SharePoint answers every upload with a 200 that names no \<^verbatim>\<open>UniqueId\<close>.\<close>

definition anonymous_env :: env where
  "anonymous_env =
     quiet_env\<lparr>respond := (\<lambda>sent r. case r of
                    TokenRequest u c s res \<Rightarrow> token_ok
                  | UploadRequest u a body \<Rightarrow> upload_anonymous)\<rparr>"




definition no_options :: dms_sync_options where
  "no_options = \<lparr>dryRun = None, forceSync = None, conflictResolution = None\<rparr>"

text \<open>The database refuses the select of a push.\<close>

definition broken_env :: env where
  "broken_env = quiet_env\<lparr>select_error := Some ''connection refused''\<rparr>"

text \<open>A deployment in which no environment variable is set.\<close>

definition bare_env :: env where
  "bare_env = quiet_env\<lparr>getenv := (\<lambda>k. None)\<rparr>"

definition post :: "string \<Rightarrow> sync_http_request" where
  "post a =
     \<lparr>http_method = ''POST'',
      json_body = Inr \<lparr>action = Some a, dmsSystemId = None, documentIds = None,
                         since = None, options = None\<rparr>\<rparr>"

section \<open>Properties of the applications table\<close>

subsection \<open>What the triggers write\<close>

lemma status_timestamps_status [simp]:
  "status (status_timestamps now OLD NEW) = status NEW"
  by (simp add: status_timestamps_def split: option.splits application_status_enum.splits)

lemma status_timestamps_form_data [simp]:
  "form_data (status_timestamps now OLD NEW) = form_data NEW"
  by (simp add: status_timestamps_def split: option.splits application_status_enum.splits)

lemma status_timestamps_version [simp]:
  "version (status_timestamps now OLD NEW) = version NEW"
  by (simp add: status_timestamps_def split: option.splits application_status_enum.splits)

lemma status_timestamps_other [simp]:
  "expiry_date (status_timestamps now OLD NEW) = expiry_date NEW"
  "created_at (status_timestamps now OLD NEW) = created_at NEW"
  by (simp_all add: status_timestamps_def split: option.splits application_status_enum.splits)

lemma status_timestamps_submitted_at:
  "submitted_at (status_timestamps now OLD NEW) =
     (if status NEW = Some submitted \<and> status OLD = Some draft then Some now
      else submitted_at NEW)"
  by (auto simp: status_timestamps_def plpgsql_if_def sql_eq_def is_null_def
      split: option.splits application_status_enum.splits)

lemma status_timestamps_decision_date:
  "decision_date (status_timestamps now OLD NEW) =
     (if (status NEW = Some approved \<or> status NEW = Some rejected) \<and> decision_date NEW = None
      then Some now else decision_date NEW)"
  by (auto simp: status_timestamps_def plpgsql_if_def sql_eq_def is_null_def
      split: option.splits application_status_enum.splits)

lemma handle_Inr:
  assumes "handle_application_status_change now OLD NEW = Inr r1"
  shows "\<exists>v. r1 = (status_timestamps now OLD NEW)\<lparr>version := v\<rparr>"
proof (cases "is_distinct_from (form_data OLD) (form_data NEW) \<or>
              is_distinct_from (status OLD) (status NEW)")
  case True
  with assms show ?thesis
    by (auto simp: handle_application_status_change_def Let_def split: sum.splits)
next
  case False
  with assms have "r1 = status_timestamps now OLD NEW"
    by (simp add: handle_application_status_change_def Let_def)
  then have "r1 = (status_timestamps now OLD NEW)\<lparr>version := version NEW\<rparr>"
    by (metis application.surjective application.update_convs(10) status_timestamps_version)
  then show ?thesis by blast
qed

lemma update_updated_at_column_fields [simp]:
  "status (update_updated_at_column now r) = status r"
  "submitted_at (update_updated_at_column now r) = submitted_at r"
  "decision_date (update_updated_at_column now r) = decision_date r"
  "version (update_updated_at_column now r) = version r"
  by (simp_all add: update_updated_at_column_def)



text \<open>
  In the schema as it is written no \<^verbatim>\<open>UPDATE\<close> of the table completes: what passes the
  \<^verbatim>\<open>BEFORE\<close> triggers and the constraints is aborted by the audit trigger.
\<close>

lemma update_application_aborts:
  "update_application now OLD NEW \<noteq> Inr r"
  by (auto simp: update_application_def update_with_def create_audit_log_def split: sum.splits)




lemma status_step:
  assumes "handle_application_status_change now OLD NEW = Inr r1"
  shows "status r1 = status NEW"
proof -
  from handle_Inr [OF assms] obtain v where "r1 = (status_timestamps now OLD NEW)\<lparr>version := v\<rparr>" ..
  then show ?thesis by simp
qed

lemma handle_total:
  assumes "version OLD = Some v" "v < 2147483647"
  shows "handle_application_status_change now OLD NEW =
     Inr ((status_timestamps now OLD NEW)\<lparr>version :=
        if form_data NEW \<noteq> form_data OLD \<or> status NEW \<noteq> status OLD then Some (v + 1)
        else version NEW\<rparr>)"
  using assms
  by (auto simp: handle_application_status_change_def Let_def int4_add1_def is_distinct_from_def)

subsection \<open>What the constraints admit\<close>

lemma check_constraints_Inr:
  "check_constraints x = Inr y \<Longrightarrow>
     y = x \<and> form_data x \<noteq> None \<and> check_holds (valid_dates x) \<and>
     check_holds (valid_status_transitions x)"
  by (auto simp: check_constraints_def split: if_splits)

lemma valid_status_transitions_holds:
  "status x = Some s \<Longrightarrow>
     check_holds (valid_status_transitions x) = ((submitted_at x \<noteq> None) = (s \<noteq> draft))"
  by (auto simp: check_holds_def valid_status_transitions_def sql_or_def sql_and_def sql_eq_def
      sql_ne_def is_null_def is_not_null_def split: if_splits)

lemma valid_dates_holds:
  "check_holds (valid_dates x) =
    ((\<forall>t c. submitted_at x = Some t \<and> created_at x = Some c \<longrightarrow> c \<le> t) \<and>
     (\<forall>d t. decision_date x = Some d \<and> submitted_at x = Some t \<longrightarrow> t \<le> d) \<and>
     (\<forall>e c. expiry_date x = Some e \<and> created_at x = Some c \<longrightarrow> c < e))"
  by (cases "submitted_at x"; cases "created_at x"; cases "decision_date x"; cases "expiry_date x")
     (auto simp: check_holds_def valid_dates_def sql_or_def sql_and_def sql_ge_def sql_gt_def
        is_null_def)


lemma before_update_status:
  assumes "version OLD = Some v" "v < 2147483647"
  shows "before_update now OLD (set_status s OLD) = check_constraints (proposed now OLD s v)"
  using assms by (simp add: set_status_def before_update_def handle_total proposed_def)

lemma version_overflow:
  assumes "version OLD = Some 2147483647" "status NEW \<noteq> status OLD"
  shows "before_update now OLD NEW = Inl integer_out_of_range"
  using assms
  by (simp add: before_update_def handle_application_status_change_def Let_def int4_add1_def
      is_distinct_from_def)

lemma proposed_fields:
  "status (proposed now OLD s v) = Some s"
  "form_data (proposed now OLD s v) = form_data OLD"
  "created_at (proposed now OLD s v) = created_at OLD"
  "expiry_date (proposed now OLD s v) = expiry_date OLD"
  "submitted_at (proposed now OLD s v) =
     (if s = submitted \<and> status OLD = Some draft then Some now else submitted_at OLD)"
  "decision_date (proposed now OLD s v) =
     (if (s = approved \<or> s = rejected) \<and> decision_date OLD = None then Some now
      else decision_date OLD)"
  by (simp_all add: proposed_def update_updated_at_column_def status_timestamps_submitted_at
      status_timestamps_decision_date)

text \<open>Evaluating the example rows.\<close>

lemmas sql_eval_defs =
  set_status_def before_update_def update_with_def update_application_def create_audit_log_def
  handle_application_status_change_def Let_def
  status_timestamps_def plpgsql_if_def is_null_def is_not_null_def is_distinct_from_def
  int4_add1_def update_updated_at_column_def check_constraints_def check_holds_def
  valid_dates_def valid_status_transitions_def sql_and_def sql_or_def sql_eq_def sql_ne_def
  sql_ge_def sql_gt_def

lemma app_draft_stored: "check_constraints app_draft = Inr app_draft"
  by (simp add: sql_eval_defs app_draft_def)

lemma app_submitted_stored: "check_constraints app_submitted = Inr app_submitted"
  by (simp add: sql_eval_defs app_submitted_def)

lemma app_under_review_stored: "check_constraints app_under_review = Inr app_under_review"
  by (simp add: sql_eval_defs app_under_review_def)

lemma app_approved_stored: "check_constraints app_approved = Inr app_approved"
  by (simp add: sql_eval_defs app_approved_def)

lemma app_appealed_stored: "check_constraints app_appealed = Inr app_appealed"
  by (simp add: sql_eval_defs app_appealed_def)

lemma app_unversioned_stored: "check_constraints app_unversioned = Inr app_unversioned"
  by (simp add: sql_eval_defs app_unversioned_def)

subsection \<open>Status transitions (claim C3)\<close>

text \<open>
  Claim C3 says that a transition into \<open>submitted\<close> is rejected unless the application is a
  draft whose form data validates, with a validation error otherwise, and that a
  transition that is no edge of the lifecycle fails with an invalid-transition error,
  \<open>submitted\<close> to \<open>approved\<close> in particular. The schema has neither check and neither error.
  Below, the status trigger and the constraints pass \<open>submitted\<close> to \<open>approved\<close> on, with
  the decision date and the next version, and they pass on the submission of a draft
  whose form is the empty object. The error that then ends each of the two statements
  is the audit function's ambiguous column, the same error that ends the update along
  the lifecycle's edge from \<open>submitted\<close> to \<open>under_review\<close>.
\<close>

theorem status_transition_counterexample:
  "before_update 20 app_submitted (set_status approved app_submitted) =
     Inr (app_submitted\<lparr>status := Some approved, decision_date := Some 20,
            updated_at := Some 20, version := Some 3\<rparr>) \<and>
   update_application 20 app_submitted (set_status approved app_submitted) =
     Inl (ambiguous_column ''key'') \<and>
   form_data app_draft = Some (JObj []) \<and>
   before_update 20 app_draft (set_status submitted app_draft) =
     Inr (app_draft\<lparr>status := Some submitted, submitted_at := Some 20,
            updated_at := Some 20, version := Some 2\<rparr>) \<and>
   update_application 20 app_draft (set_status submitted app_draft) =
     Inl (ambiguous_column ''key'') \<and>
   update_application 20 app_submitted (set_status under_review app_submitted) =
     Inl (ambiguous_column ''key'')"
  by (simp add: sql_eval_defs app_submitted_def app_draft_def)

text \<open>
  Claim C3, amended. The status trigger and the table's constraints check neither the
  lifecycle's edges nor the form data. For a stored application with a status, a
  status-only update whose stored version is below the \<^verbatim>\<open>INTEGER\<close> maximum
  \<^item> between two states other than \<open>draft\<close> passes the \<^verbatim>\<open>BEFORE UPDATE\<close> triggers and the
    constraints (the clock not being behind \<open>submitted_at\<close>), whatever the two states
    are, \<open>submitted\<close> to \<open>approved\<close> included;
  \<^item> from \<open>draft\<close> to \<open>submitted\<close> passes them whatever \<open>form_data\<close> holds (no decision
    date being recorded and the clock not being behind \<open>created_at\<close>), and sets
    \<open>submitted_at\<close>;
  \<^item> from \<open>draft\<close> to a state other than \<open>draft\<close> and \<open>submitted\<close>, or from another state back
    to \<open>draft\<close>, is rejected as a violation of the check \<open>valid_status_transitions\<close>;

  and a status-only update to another state whose stored version is the \<^verbatim>\<open>INTEGER\<close>
  maximum is rejected with \<^verbatim>\<open>integer out of range\<close>.
\<close>

theorem update_status_acceptance:
  assumes stored: "check_constraints OLD = Inr OLD"
      and s0: "status OLD = Some s0"
      and v: "version OLD = Some v"
  shows "(v < 2147483647 \<and> s0 \<noteq> draft \<and> s \<noteq> draft \<and>
            (\<forall>t. submitted_at OLD = Some t \<longrightarrow> t \<le> now) \<longrightarrow>
            (\<exists>r. before_update now OLD (set_status s OLD) = Inr r \<and> status r = Some s)) \<and>
         (v < 2147483647 \<and> s0 = draft \<and> s = submitted \<and> decision_date OLD = None \<and>
            (\<forall>c. created_at OLD = Some c \<longrightarrow> c \<le> now) \<longrightarrow>
            (\<exists>r. before_update now OLD (set_status s OLD) = Inr r \<and>
                 status r = Some submitted \<and> submitted_at r = Some now)) \<and>
         (v < 2147483647 \<and> s0 = draft \<and> s \<noteq> draft \<and> s \<noteq> submitted \<longrightarrow>
            before_update now OLD (set_status s OLD) =
              Inl (check_violation ''valid_status_transitions'')) \<and>
         (v < 2147483647 \<and> s0 \<noteq> draft \<and> s = draft \<longrightarrow>
            before_update now OLD (set_status s OLD) =
              Inl (check_violation ''valid_status_transitions'')) \<and>
         (v = 2147483647 \<and> s \<noteq> s0 \<longrightarrow>
            before_update now OLD (set_status s OLD) = Inl integer_out_of_range)"
proof -
  let ?p = "proposed now OLD s v"
  let ?u = "before_update now OLD (set_status s OLD)"
  note st = check_constraints_Inr [OF stored]
  have fd: "form_data ?p \<noteq> None" using st by (simp add: proposed_fields)
  have sub0: "(submitted_at OLD \<noteq> None) = (s0 \<noteq> draft)"
    using st s0 by (simp add: valid_status_transitions_holds)
  have vd0: "check_holds (valid_dates OLD)" using st by simp
  have eq: "v < 2147483647 \<Longrightarrow> ?u = check_constraints ?p"
    by (rule before_update_status [OF v])
  have vst: "check_holds (valid_status_transitions ?p) = ((submitted_at ?p \<noteq> None) = (s \<noteq> draft))"
    by (rule valid_status_transitions_holds) (simp add: proposed_fields)
  have A: "v < 2147483647 \<and> s0 \<noteq> draft \<and> s \<noteq> draft \<and>
            (\<forall>t. submitted_at OLD = Some t \<longrightarrow> t \<le> now) \<longrightarrow>
            (\<exists>r. ?u = Inr r \<and> status r = Some s)"
  proof (intro impI, elim conjE)
    assume b: "v < 2147483647"
      and h: "s0 \<noteq> draft" "s \<noteq> draft" "\<forall>t. submitted_at OLD = Some t \<longrightarrow> t \<le> now"
    have "check_holds (valid_dates ?p)"
      using vd0 h s0 by (auto simp: valid_dates_holds proposed_fields split: if_splits)
    moreover have "check_holds (valid_status_transitions ?p)"
      unfolding vst using h sub0 s0 by (simp add: proposed_fields)
    ultimately have "check_constraints ?p = Inr ?p" using fd by (simp add: check_constraints_def)
    then show "\<exists>r. ?u = Inr r \<and> status r = Some s"
      by (simp add: eq [OF b] proposed_fields)
  qed
  have B: "v < 2147483647 \<and> s0 = draft \<and> s = submitted \<and> decision_date OLD = None \<and>
            (\<forall>c. created_at OLD = Some c \<longrightarrow> c \<le> now) \<longrightarrow>
            (\<exists>r. ?u = Inr r \<and> status r = Some submitted \<and> submitted_at r = Some now)"
  proof (intro impI, elim conjE)
    assume b: "v < 2147483647"
      and h: "s0 = draft" "s = submitted" "decision_date OLD = None"
      "\<forall>c. created_at OLD = Some c \<longrightarrow> c \<le> now"
    have "check_holds (valid_dates ?p)"
      using vd0 h s0 by (auto simp: valid_dates_holds proposed_fields split: if_splits)
    moreover have "check_holds (valid_status_transitions ?p)"
      unfolding vst using h sub0 s0 by (simp add: proposed_fields)
    ultimately have "check_constraints ?p = Inr ?p" using fd by (simp add: check_constraints_def)
    then have "?u = Inr ?p" by (simp only: eq [OF b])
    moreover have "status ?p = Some submitted \<and> submitted_at ?p = Some now"
      using h s0 by (simp add: proposed_fields)
    ultimately show "\<exists>r. ?u = Inr r \<and> status r = Some submitted \<and> submitted_at r = Some now"
      by blast
  qed
  have C: "v < 2147483647 \<and> s0 = draft \<and> s \<noteq> draft \<and> s \<noteq> submitted \<longrightarrow>
            ?u = Inl (check_violation ''valid_status_transitions'')"
  proof (intro impI, elim conjE)
    assume b: "v < 2147483647" and h: "s0 = draft" "s \<noteq> draft" "s \<noteq> submitted"
    have "check_holds (valid_dates ?p)"
      using vd0 h s0 sub0 by (auto simp: valid_dates_holds proposed_fields split: if_splits)
    moreover have "\<not> check_holds (valid_status_transitions ?p)"
      unfolding vst using h sub0 s0 by (simp add: proposed_fields)
    ultimately show "?u = Inl (check_violation ''valid_status_transitions'')"
      using fd by (simp add: eq [OF b] check_constraints_def)
  qed
  have D: "v < 2147483647 \<and> s0 \<noteq> draft \<and> s = draft \<longrightarrow>
            ?u = Inl (check_violation ''valid_status_transitions'')"
  proof (intro impI, elim conjE)
    assume b: "v < 2147483647" and h: "s0 \<noteq> draft" "s = draft"
    have "check_holds (valid_dates ?p)"
      using vd0 h s0 sub0 by (auto simp: valid_dates_holds proposed_fields split: if_splits)
    moreover have "\<not> check_holds (valid_status_transitions ?p)"
      unfolding vst using h sub0 s0 by (simp add: proposed_fields)
    ultimately show "?u = Inl (check_violation ''valid_status_transitions'')"
      using fd by (simp add: eq [OF b] check_constraints_def)
  qed
  have E: "v = 2147483647 \<and> s \<noteq> s0 \<longrightarrow> ?u = Inl integer_out_of_range"
  proof (intro impI, elim conjE)
    assume h: "v = 2147483647" "s \<noteq> s0"
    show "?u = Inl integer_out_of_range"
      by (rule version_overflow) (use v h s0 in \<open>simp_all add: set_status_def\<close>)
  qed
  from A B C D E show ?thesis by blast
qed

lemma app_full_stored:
  "check_constraints (app_submitted\<lparr>version := Some 2147483647\<rparr>) =
     Inr (app_submitted\<lparr>version := Some 2147483647\<rparr>)"
  by (simp add: sql_eval_defs app_submitted_def)

theorem update_status_acceptance_witness:
  "check_constraints app_submitted = Inr app_submitted \<and>
   status app_submitted = Some submitted \<and> version app_submitted = Some 2 \<and>
   submitted_at app_submitted = Some 10 \<and>
   (\<exists>r. before_update 20 app_submitted (set_status approved app_submitted) = Inr r \<and>
        status r = Some approved) \<and>
   before_update 20 app_submitted (set_status draft app_submitted) =
     Inl (check_violation ''valid_status_transitions'') \<and>
   check_constraints app_draft = Inr app_draft \<and>
   status app_draft = Some draft \<and> version app_draft = Some 1 \<and>
   decision_date app_draft = None \<and> created_at app_draft = Some 5 \<and>
   (\<exists>r. before_update 20 app_draft (set_status submitted app_draft) = Inr r \<and>
        status r = Some submitted \<and> submitted_at r = Some 20) \<and>
   before_update 20 app_draft (set_status withdrawn app_draft) =
     Inl (check_violation ''valid_status_transitions'') \<and>
   before_update 20 (app_submitted\<lparr>version := Some 2147483647\<rparr>)
       (set_status approved (app_submitted\<lparr>version := Some 2147483647\<rparr>)) =
     Inl integer_out_of_range"
proof -
  let ?full = "app_submitted\<lparr>version := Some 2147483647\<rparr>"
  have s: "status app_submitted = Some submitted" "version app_submitted = Some 2"
    "submitted_at app_submitted = Some 10"
    by (simp_all add: app_submitted_def)
  have d: "status app_draft = Some draft" "version app_draft = Some 1"
    "decision_date app_draft = None" "created_at app_draft = Some 5"
    by (simp_all add: app_draft_def)
  have f: "status ?full = Some submitted" "version ?full = Some 2147483647"
    by (simp_all add: app_submitted_def)
  note sub = update_status_acceptance [OF app_submitted_stored s(1) s(2)]
  note dra = update_status_acceptance [OF app_draft_stored d(1) d(2)]
  note ful = update_status_acceptance [OF app_full_stored f(1) f(2)]
  have "\<exists>r. before_update 20 app_submitted (set_status approved app_submitted) = Inr r \<and>
      status r = Some approved"
    using sub [of approved 20] s(3) by simp
  moreover have "before_update 20 app_submitted (set_status draft app_submitted) =
      Inl (check_violation ''valid_status_transitions'')"
    using sub [of draft 20] by simp
  moreover have "\<exists>r. before_update 20 app_draft (set_status submitted app_draft) = Inr r \<and>
      status r = Some submitted \<and> submitted_at r = Some 20"
    using dra [of submitted 20] d(3,4) by simp
  moreover have "before_update 20 app_draft (set_status withdrawn app_draft) =
      Inl (check_violation ''valid_status_transitions'')"
    using dra [of withdrawn 20] by simp
  moreover have "before_update 20 ?full (set_status approved ?full) = Inl integer_out_of_range"
    using ful [of approved 20] by simp
  ultimately show ?thesis
    using s d app_submitted_stored app_draft_stored by simp
qed

subsection \<open>The version counter (claim C4)\<close>











subsection \<open>The submission time (claim C5)\<close>











subsection \<open>The decision date (claim C6)\<close>










section \<open>Properties of the sync function\<close>

subsection \<open>One entry per item\<close>

lemma push_item_entry:
  "push_item e cfg opts w d = (item, w') \<Longrightarrow>
     documentId item = Some (doc_id d) \<and> known_status item"
  by (auto simp: push_item_def push_try_def known_status_def
      split: if_splits sum.splits prod.splits option.splits)

lemma pull_item_entry:
  "pull_item e opts w x = (item, w') \<Longrightarrow>
     externalId item = Str (ext_id x) \<and> known_status item"
  by (auto simp: pull_item_def pull_try_def known_status_def
      split: if_splits sum.splits prod.splits option.splits)

lemma push_loop_entries:
  "push_loop e cfg opts docs (res, w) = (res', w') \<Longrightarrow>
     \<exists>new. res' = res @ new \<and> map documentId new = map (\<lambda>d. Some (doc_id d)) docs \<and>
           (\<forall>r \<in> set new. known_status r)"
proof (induction docs arbitrary: res w)
  case Nil
  then show ?case by simp
next
  case (Cons d docs)
  obtain item w1 where it: "push_item e cfg opts w d = (item, w1)"
    by (cases "push_item e cfg opts w d")
  with Cons.prems have "push_loop e cfg opts docs (res @ [item], w1) = (res', w')" by simp
  from Cons.IH [OF this] obtain new where
    n: "res' = (res @ [item]) @ new" "map documentId new = map (\<lambda>d. Some (doc_id d)) docs"
       "\<forall>r \<in> set new. known_status r" by blast
  from push_item_entry [OF it] have "documentId item = Some (doc_id d)" "known_status item"
    by simp_all
  with n have "res' = res @ (item # new) \<and>
      map documentId (item # new) = map (\<lambda>d. Some (doc_id d)) (d # docs) \<and>
      (\<forall>r \<in> set (item # new). known_status r)" by simp
  then show ?case by blast
qed

lemma pull_loop_entries:
  "pull_loop e opts xs (res, w) = (res', w') \<Longrightarrow>
     \<exists>new. res' = res @ new \<and> map externalId new = map (\<lambda>x. Str (ext_id x)) xs \<and>
           (\<forall>r \<in> set new. known_status r)"
proof (induction xs arbitrary: res w)
  case Nil
  then show ?case by simp
next
  case (Cons x xs)
  obtain item w1 where it: "pull_item e opts w x = (item, w1)"
    by (cases "pull_item e opts w x")
  with Cons.prems have "pull_loop e opts xs (res @ [item], w1) = (res', w')" by simp
  from Cons.IH [OF this] obtain new where
    n: "res' = (res @ [item]) @ new" "map externalId new = map (\<lambda>x. Str (ext_id x)) xs"
       "\<forall>r \<in> set new. known_status r" by blast
  from pull_item_entry [OF it] have "externalId item = Str (ext_id x)" "known_status item"
    by simp_all
  with n have "res' = res @ (item # new) \<and>
      map externalId (item # new) = map (\<lambda>x. Str (ext_id x)) (x # xs) \<and>
      (\<forall>r \<in> set (item # new). known_status r)" by simp
  then show ?case by blast
qed

lemma pushDocumentsToDMS_Inr:
  assumes "pushDocumentsToDMS e w sys ids opts = (Inr rep, w')"
  shows "\<exists>cfg res. select_error e = None \<and> find_config e sys = Some cfg \<and>
           push_loop e cfg opts (candidate_documents w ids) ([], w) = (res, w') \<and>
           rep = make_report (length (candidate_documents w ids)) res"
  using assms
  by (auto simp: pushDocumentsToDMS_def select_documents_def
      split: option.splits prod.splits sum.splits)

lemma pullDocumentsFromDMS_Inr:
  assumes "pullDocumentsFromDMS e w sys since_ts opts = (Inr rep, w')"
  shows "\<exists>cfg res. find_config e sys = Some cfg \<and>
           pull_loop e opts (fetchDocumentsFromDMS e cfg since_ts) ([], w) = (res, w') \<and>
           rep = make_report (length (fetchDocumentsFromDMS e cfg since_ts)) res"
  using assms
  by (auto simp: pullDocumentsFromDMS_def Let_def split: option.splits prod.splits sum.splits)

lemma push_completes:
  assumes "select_error e = None" "find_config e sys = Some cfg"
  shows "\<exists>rep w'. pushDocumentsToDMS e w sys ids opts = (Inr rep, w')"
  using assms
  by (auto simp: pushDocumentsToDMS_def select_documents_def split: prod.splits)

lemma pull_completes:
  assumes "find_config e sys = Some cfg"
  shows "\<exists>rep w'. pullDocumentsFromDMS e w sys since_ts opts = (Inr rep, w')"
  using assms
  by (auto simp: pullDocumentsFromDMS_def Let_def split: prod.splits)

lemma push_results:
  assumes "pushDocumentsToDMS e w sys ids opts = (Inr rep, w')"
  shows "map documentId (results rep) = map (\<lambda>d. Some (doc_id d)) (candidate_documents w ids) \<and>
         totalDocuments rep = length (candidate_documents w ids) \<and>
         successful rep = count_status ''success'' (results rep) \<and>
         failed rep = count_status ''error'' (results rep) \<and>
         report_dryRun rep = count_status ''dry_run'' (results rep) \<and>
         (\<forall>r \<in> set (results rep). known_status r)"
proof -
  from pushDocumentsToDMS_Inr [OF assms] obtain cfg res where
    l: "push_loop e cfg opts (candidate_documents w ids) ([], w) = (res, w')" and
    r: "rep = make_report (length (candidate_documents w ids)) res" by blast
  from push_loop_entries [OF l] show ?thesis by (auto simp: r make_report_def)
qed

lemma pull_results:
  assumes "pullDocumentsFromDMS e w sys since_ts opts = (Inr rep, w')"
  shows "\<exists>cfg. find_config e sys = Some cfg \<and>
         map externalId (results rep) =
           map (\<lambda>x. Str (ext_id x)) (fetchDocumentsFromDMS e cfg since_ts) \<and>
         totalDocuments rep = length (fetchDocumentsFromDMS e cfg since_ts) \<and>
         successful rep = count_status ''success'' (results rep) \<and>
         failed rep = count_status ''error'' (results rep) \<and>
         report_dryRun rep = count_status ''dry_run'' (results rep) \<and>
         (\<forall>r \<in> set (results rep). known_status r)"
proof -
  from pullDocumentsFromDMS_Inr [OF assms] obtain cfg res where
    c: "find_config e sys = Some cfg" and
    l: "pull_loop e opts (fetchDocumentsFromDMS e cfg since_ts) ([], w) = (res, w')" and
    r: "rep = make_report (length (fetchDocumentsFromDMS e cfg since_ts)) res" by blast
  from pull_loop_entries [OF l] c show ?thesis by (auto simp: r make_report_def)
qed


subsection \<open>The loops, item by item\<close>




lemma world_after_pull_snoc:
  "k < length xs \<Longrightarrow>
     world_after_pull e opts w (take (Suc k) xs) =
     snd (pull_item e opts (world_after_pull e opts w (take k xs)) (xs ! k))"
  by (simp add: world_after_pull_def take_Suc_conv_app_nth)




subsection \<open>Evaluating the examples\<close>

lemma down_env_config: "select_error down_env = None \<and> find_config down_env None = Some main_config"
  by code_simp



subsection \<open>Item failures stay inside the item (claim C7)\<close>











subsection \<open>The report adds up (claim C10)\<close>

lemma count_status_sum:
  "\<forall>r \<in> set res. known_status r \<Longrightarrow>
     count_status ''success'' res + count_status ''error'' res + count_status ''dry_run'' res =
     length res"
  by (induction res) (auto simp: count_status_def known_status_def)

text \<open>
  Claim C10. The report of a completed push has one entry per candidate document,
  \<open>totalDocuments\<close> is their number, every entry has the status \<open>success\<close>, \<open>error\<close> or
  \<open>dry_run\<close>, and the three counts add up to \<open>totalDocuments\<close>. The same holds of a
  completed pull and the external documents that \<^verbatim>\<open>fetchDocumentsFromDMS\<close> returned.
\<close>

theorem report_is_consistent:
  "(pushDocumentsToDMS e w sys ids opts = (Inr rep, w') \<longrightarrow>
      length (results rep) = length (candidate_documents w ids) \<and>
      totalDocuments rep = length (candidate_documents w ids) \<and>
      successful rep + failed rep + report_dryRun rep = totalDocuments rep \<and>
      (\<forall>r \<in> set (results rep). known_status r)) \<and>
   (pullDocumentsFromDMS e w sys since_ts opts = (Inr rep, w') \<longrightarrow>
      (\<exists>cfg. find_config e sys = Some cfg \<and>
         length (results rep) = length (fetchDocumentsFromDMS e cfg since_ts) \<and>
         totalDocuments rep = length (fetchDocumentsFromDMS e cfg since_ts)) \<and>
      successful rep + failed rep + report_dryRun rep = totalDocuments rep \<and>
      (\<forall>r \<in> set (results rep). known_status r))"
proof (intro conjI impI)
  assume a: "pushDocumentsToDMS e w sys ids opts = (Inr rep, w')"
  note p = push_results [OF a]
  from p have len: "length (results rep) = length (candidate_documents w ids)"
    by (metis length_map)
  from p have k: "\<forall>r \<in> set (results rep). known_status r" by simp
  show "length (results rep) = length (candidate_documents w ids)" by (rule len)
  show "totalDocuments rep = length (candidate_documents w ids)" using p by simp
  show "successful rep + failed rep + report_dryRun rep = totalDocuments rep"
    using p len count_status_sum [OF k] by simp
  show "\<forall>r \<in> set (results rep). known_status r" by (rule k)
next
  assume a: "pullDocumentsFromDMS e w sys since_ts opts = (Inr rep, w')"
  from pull_results [OF a] obtain cfg where
    c: "find_config e sys = Some cfg" and
    m: "map externalId (results rep) =
          map (\<lambda>x. Str (ext_id x)) (fetchDocumentsFromDMS e cfg since_ts)" and
    t: "totalDocuments rep = length (fetchDocumentsFromDMS e cfg since_ts)" and
    n: "successful rep = count_status ''success'' (results rep)"
       "failed rep = count_status ''error'' (results rep)"
       "report_dryRun rep = count_status ''dry_run'' (results rep)" and
    k: "\<forall>r \<in> set (results rep). known_status r" by blast
  from m have len: "length (results rep) = length (fetchDocumentsFromDMS e cfg since_ts)"
    by (metis length_map)
  show "\<exists>cfg. find_config e sys = Some cfg \<and>
         length (results rep) = length (fetchDocumentsFromDMS e cfg since_ts) \<and>
         totalDocuments rep = length (fetchDocumentsFromDMS e cfg since_ts)"
    using c len t by blast
  show "successful rep + failed rep + report_dryRun rep = totalDocuments rep"
    using n t len count_status_sum [OF k] by simp
  show "\<forall>r \<in> set (results rep). known_status r" by (rule k)
qed

lemma down_env_run:
  "\<exists>rep w'. pushDocumentsToDMS down_env three_docs None None no_options = (Inr rep, w')"
  using push_completes [of down_env None main_config three_docs None no_options] down_env_config
  by simp

lemma three_candidates: "length (candidate_documents three_docs None) = 3"
  by code_simp

lemma down_env_counts:
  "map_sum id (\<lambda>r. (totalDocuments r, successful r, failed r, report_dryRun r))
     (fst (pushDocumentsToDMS down_env three_docs None None no_options)) = Inr (3, 2, 1, 0)"
  by code_simp

theorem report_is_consistent_witness:
  "(\<exists>rep w'. pushDocumentsToDMS down_env three_docs None None no_options = (Inr rep, w') \<and>
      length (results rep) = 3 \<and> totalDocuments rep = 3 \<and>
      successful rep + failed rep + report_dryRun rep = 3) \<and>
   map_sum id (\<lambda>r. (totalDocuments r, successful r, failed r, report_dryRun r))
     (fst (pushDocumentsToDMS down_env three_docs None None no_options)) = Inr (3, 2, 1, 0)"
proof -
  from down_env_run obtain rep w' where
    r: "pushDocumentsToDMS down_env three_docs None None no_options = (Inr rep, w')" by blast
  from report_is_consistent
    [where e = down_env and w = three_docs and sys = None and ids = None
       and opts = no_options and rep = rep and w' = w'] r
  have "length (results rep) = 3 \<and> totalDocuments rep = 3 \<and>
      successful rep + failed rep + report_dryRun rep = 3"
    by (simp add: three_candidates)
  with r down_env_counts show ?thesis by blast
qed

subsection \<open>What one pushed item does to the world\<close>

lemma fetch_world: "snd (fetch e req w) = w\<lparr>requests := requests w @ [req]\<rparr>"
  by (simp add: fetch_def)

lemma getSharePointAccessToken_world:
  assumes a: "getSharePointAccessToken e auth w = (r, w')"
  shows "w' = w\<lparr>requests := requests w @ [token_request auth]\<rparr>"
proof -
  obtain fr w1 where f: "fetch e (token_request auth) w = (fr, w1)"
    by (cases "fetch e (token_request auth) w")
  from fetch_world [of e "token_request auth" w] f
  have w1: "w1 = w\<lparr>requests := requests w @ [token_request auth]\<rparr>" by simp
  from a f have "w' = w1"
    by (cases fr) (auto simp: getSharePointAccessToken_def split: if_splits payload.splits)
  with w1 show ?thesis by simp
qed

lemma uploadToSharePoint_world:
  assumes a: "uploadToSharePoint e cfg d b w = (r, w')"
  shows "\<exists>rs. w' = w\<lparr>requests := requests w @ rs\<rparr> \<and> length (filter is_upload rs) \<le> 1"
proof -
  obtain t w1 where g: "getSharePointAccessToken e (authentication cfg) w = (t, w1)"
    by (cases "getSharePointAccessToken e (authentication cfg) w")
  let ?tr = "token_request (authentication cfg)"
  from getSharePointAccessToken_world [OF g]
  have w1: "w1 = w\<lparr>requests := requests w @ [?tr]\<rparr>" .
  show ?thesis
  proof (cases t)
    case (Inl m)
    with a g have "w' = w1" by (simp add: uploadToSharePoint_def)
    with w1 have "w' = w\<lparr>requests := requests w @ [?tr]\<rparr> \<and>
        length (filter is_upload [?tr]) \<le> 1"
      by (simp add: is_upload_def token_request_def)
    then show ?thesis by blast
  next
    case (Inr tok)
    let ?ur = "upload_request cfg d tok b"
    obtain fr w2 where f: "fetch e ?ur w1 = (fr, w2)" by (cases "fetch e ?ur w1")
    from fetch_world [of e ?ur w1] f
    have w2: "w2 = w1\<lparr>requests := requests w1 @ [?ur]\<rparr>" by simp
    from a g Inr f have "w' = w2"
      by (cases fr)
         (auto simp: uploadToSharePoint_def split: if_splits payload.splits d_member.splits)
    with w1 w2 have "w' = w\<lparr>requests := requests w @ [?tr, ?ur]\<rparr> \<and>
        length (filter is_upload [?tr, ?ur]) \<le> 1"
      by (simp add: is_upload_def token_request_def upload_request_def)
    then show ?thesis by blast
  qed
qed

lemma uploadToExternalDMS_world:
  assumes a: "uploadToExternalDMS e cfg d b w = (r, w')"
  shows "\<exists>rs. w' = w\<lparr>requests := requests w @ rs\<rparr> \<and> length (filter is_upload rs) \<le> 1"
proof (cases "config_type cfg")
  case sharepoint
  with a show ?thesis using uploadToSharePoint_world [of e cfg d b w r w']
    by (simp add: uploadToExternalDMS_def)
next
  case filenet
  with a have "w' = w\<lparr>requests := requests w @ []\<rparr> \<and> length (filter is_upload []) \<le> 1"
    by (simp add: uploadToExternalDMS_def uploadToFileNet_def)
  then show ?thesis by blast
next
  case documentum
  with a have "w' = w\<lparr>requests := requests w @ []\<rparr> \<and> length (filter is_upload []) \<le> 1"
    by (simp add: uploadToExternalDMS_def uploadToDocumentum_def)
  then show ?thesis by blast
next
  case custom
  with a have "w' = w\<lparr>requests := requests w @ []\<rparr> \<and> length (filter is_upload []) \<le> 1"
    by (simp add: uploadToExternalDMS_def)
  then show ?thesis by blast
qed

lemma update_documents_world:
  "update_documents e i f w = (r, w') \<Longrightarrow>
     requests w' = requests w \<and> applications w' = applications w \<and>
     ((r \<noteq> None \<and> w' = w) \<or>
      (r = None \<and>
       documents w' = map (\<lambda>x. if doc_id x = i then f x else x) (documents w)))"
  by (auto simp: update_documents_def split: option.splits)

lemma push_try_quiet:
  assumes "push_try e cfg opts w d = (r, w')"
      and "truthy (dryRun opts) \<or> (\<exists>m. download e (storage_path d) = Inl m)"
  shows "w' = w \<and> (\<forall>item. r = Inr item \<longrightarrow> item_status item \<noteq> ''success'')"
  using assms by (auto simp: push_try_def split: if_splits)

lemma push_try_upload_failed:
  assumes "push_try e cfg opts w d = (r, w')"
      and "\<not> truthy (dryRun opts)" "download e (storage_path d) = Inr b"
      and "uploadToExternalDMS e cfg d b w = (Inl m, w1)"
  shows "w' = w1 \<and> r = Inl m"
  using assms by (auto simp: push_try_def)

lemma push_try_uploaded:
  assumes "push_try e cfg opts w d = (r, w')"
      and "\<not> truthy (dryRun opts)" "download e (storage_path d) = Inr b"
      and "uploadToExternalDMS e cfg d b w = (Inr dmsResult, w1)"
      and "update_documents e (doc_id d)
             (\<lambda>r. r\<lparr>external_dms_id := assign (dms_externalId dmsResult) (external_dms_id r),
                    external_dms_url := assign (dms_url dmsResult) (external_dms_url r),
                    synced_at := Some (clock e),
                    needs_sync := Some False,
                    sync_metadata := Some (dms_metadata dmsResult)\<rparr>) w1 = (ue, w2)"
  shows "w' = w2 \<and>
         (case ue of
            Some m \<Rightarrow> r = Inl (''Failed to update document: '' @ m)
          | None \<Rightarrow> r = Inr \<lparr>documentId = Some (doc_id d),
                              externalId = dms_externalId dmsResult,
                              item_status = ''success'', item_action = Some ''synced'',
                              item_error = None\<rparr>)"
  using assms by (auto simp: push_try_def split: option.splits)

lemma push_try_cases:
  assumes pt: "push_try e cfg opts w d = (r, w')"
  shows "(\<exists>rs. requests w' = requests w @ rs \<and> length (filter is_upload rs) \<le> 1) \<and>
         applications w' = applications w \<and>
         (documents w' = documents w \<and>
            (\<forall>item. r = Inr item \<longrightarrow> item_status item \<noteq> ''success'') \<or>
          (\<exists>f item. r = Inr item \<and>
               (\<forall>x. doc_id (f x) = doc_id x \<and> application_id (f x) = application_id x \<and>
                    needs_sync (f x) = Some False \<and>
                    external_dms_id (f x) = assign (externalId item) (external_dms_id x)) \<and>
               documents w' = map (\<lambda>x. if doc_id x = doc_id d then f x else x) (documents w)))"
proof -
  have none: "\<exists>rs. requests w = requests w @ rs \<and> length (filter is_upload rs) \<le> 1"
    by (rule exI [where x = "[]"]) simp
  show ?thesis
  proof (cases "truthy (dryRun opts) \<or> (\<exists>m. download e (storage_path d) = Inl m)")
    case True
    from push_try_quiet [OF pt True] none show ?thesis by simp
  next
    case False
    then have nd: "\<not> truthy (dryRun opts)" by simp
    from False obtain b where dl: "download e (storage_path d) = Inr b"
      by (cases "download e (storage_path d)") auto
    obtain u w1 where up: "uploadToExternalDMS e cfg d b w = (u, w1)"
      by (cases "uploadToExternalDMS e cfg d b w")
    from uploadToExternalDMS_world [OF up] obtain rs where
      w1: "w1 = w\<lparr>requests := requests w @ rs\<rparr>" and
      rs: "length (filter is_upload rs) \<le> 1" by blast
    have req1: "\<exists>rs. requests w1 = requests w @ rs \<and> length (filter is_upload rs) \<le> 1"
      using w1 rs by (intro exI [where x = rs]) simp
    have app1: "applications w1 = applications w" and doc1: "documents w1 = documents w"
      using w1 by simp_all
    show ?thesis
    proof (cases u)
      case (Inl m)
      from push_try_upload_failed [OF pt nd dl up [unfolded Inl]]
      have "w' = w1" "r = Inl m" by simp_all
      with req1 app1 doc1 show ?thesis by simp
    next
      case (Inr dmsResult)
      let ?f = "\<lambda>r. r\<lparr>external_dms_id := assign (dms_externalId dmsResult) (external_dms_id r),
                       external_dms_url := assign (dms_url dmsResult) (external_dms_url r),
                       synced_at := Some (clock e),
                       needs_sync := Some False,
                       sync_metadata := Some (dms_metadata dmsResult)\<rparr>"
      let ?item = "\<lparr>documentId = Some (doc_id d), externalId = dms_externalId dmsResult,
                     item_status = ''success'', item_action = Some ''synced'',
                     item_error = None\<rparr>"
      obtain ue w2 where ud: "update_documents e (doc_id d) ?f w1 = (ue, w2)"
        by (cases "update_documents e (doc_id d) ?f w1")
      from push_try_uploaded [OF pt nd dl up [unfolded Inr] ud] have w': "w' = w2"
        and rr: "case ue of
                   Some m \<Rightarrow> r = Inl (''Failed to update document: '' @ m)
                 | None \<Rightarrow> r = Inr ?item"
        by simp_all
      from update_documents_world [OF ud] have
        u1: "requests w2 = requests w1" "applications w2 = applications w1" and
        u2: "(ue \<noteq> None \<and> w2 = w1) \<or>
             (ue = None \<and>
              documents w2 = map (\<lambda>x. if doc_id x = doc_id d then ?f x else x) (documents w1))"
        by auto
      have req: "\<exists>rs. requests w' = requests w @ rs \<and> length (filter is_upload rs) \<le> 1"
        using req1 u1 w' by simp
      have app: "applications w' = applications w" using app1 u1 w' by simp
      from u2 show ?thesis
      proof
        assume f: "ue \<noteq> None \<and> w2 = w1"
        then obtain m where "ue = Some m" by auto
        with rr have "r = Inl (''Failed to update document: '' @ m)" by simp
        moreover from f w' doc1 have "documents w' = documents w" by simp
        ultimately show ?thesis using req app by simp
      next
        assume s: "ue = None \<and>
          documents w2 = map (\<lambda>x. if doc_id x = doc_id d then ?f x else x) (documents w1)"
        with rr have ri: "r = Inr ?item" by simp
        from s w' doc1 have m: "documents w' =
            map (\<lambda>x. if doc_id x = doc_id d then ?f x else x) (documents w)" by simp
        have f: "\<forall>x. doc_id (?f x) = doc_id x \<and> application_id (?f x) = application_id x \<and>
            needs_sync (?f x) = Some False \<and>
            external_dms_id (?f x) = assign (externalId ?item) (external_dms_id x)"
          by simp
        have "\<exists>f item. r = Inr item \<and>
               (\<forall>x. doc_id (f x) = doc_id x \<and> application_id (f x) = application_id x \<and>
                    needs_sync (f x) = Some False \<and>
                    external_dms_id (f x) = assign (externalId item) (external_dms_id x)) \<and>
               documents w' = map (\<lambda>x. if doc_id x = doc_id d then f x else x) (documents w)"
          by (intro exI [where x = ?f] exI [where x = ?item] conjI ri f m)
        with req app show ?thesis by (intro conjI disjI2)
      qed
    qed
  qed
qed

lemma push_item_try:
  "push_item e cfg opts w d = (item, w') \<Longrightarrow>
     \<exists>r. push_try e cfg opts w d = (r, w') \<and> (item_status item = ''success'' \<longrightarrow> r = Inr item)"
  by (auto simp: push_item_def split: prod.splits sum.splits)

lemma push_item_sync:
  assumes "push_item e cfg opts w d = (item, w')"
  shows "(\<forall>i. i \<noteq> doc_id d \<longrightarrow> all_in_sync i w \<longrightarrow> all_in_sync i w') \<and>
         (item_status item = ''success'' \<and> externalId item = Str x \<longrightarrow>
            all_in_sync (doc_id d) w')"
proof -
  from push_item_try [OF assms] obtain r where
    t: "push_try e cfg opts w d = (r, w')" and
    s: "item_status item = ''success'' \<longrightarrow> r = Inr item"
    by blast
  from push_try_cases [OF t] have
    "documents w' = documents w \<and> (\<forall>item. r = Inr item \<longrightarrow> item_status item \<noteq> ''success'') \<or>
     (\<exists>f item. r = Inr item \<and>
               (\<forall>x. doc_id (f x) = doc_id x \<and> application_id (f x) = application_id x \<and>
                    needs_sync (f x) = Some False \<and>
                    external_dms_id (f x) = assign (externalId item) (external_dms_id x)) \<and>
               documents w' = map (\<lambda>x. if doc_id x = doc_id d then f x else x) (documents w))"
    by blast
  then show ?thesis
  proof
    assume "documents w' = documents w \<and>
      (\<forall>item. r = Inr item \<longrightarrow> item_status item \<noteq> ''success'')"
    with s show ?thesis by (auto simp: all_in_sync_def)
  next
    assume "\<exists>f item. r = Inr item \<and>
               (\<forall>x. doc_id (f x) = doc_id x \<and> application_id (f x) = application_id x \<and>
                    needs_sync (f x) = Some False \<and>
                    external_dms_id (f x) = assign (externalId item) (external_dms_id x)) \<and>
               documents w' = map (\<lambda>x. if doc_id x = doc_id d then f x else x) (documents w)"
    then obtain f it where ri: "r = Inr it"
      and f: "\<forall>x. doc_id (f x) = doc_id x \<and> application_id (f x) = application_id x \<and>
                    needs_sync (f x) = Some False \<and>
                    external_dms_id (f x) = assign (externalId it) (external_dms_id x)"
      and m: "documents w' = map (\<lambda>x. if doc_id x = doc_id d then f x else x) (documents w)"
      by blast
    have other: "\<forall>i. i \<noteq> doc_id d \<longrightarrow> all_in_sync i w \<longrightarrow> all_in_sync i w'"
      unfolding all_in_sync_def m using f by auto
    have this: "item_status item = ''success'' \<and> externalId item = Str x \<longrightarrow>
        all_in_sync (doc_id d) w'"
    proof (intro impI, elim conjE)
      assume st: "item_status item = ''success''" and ex: "externalId item = Str x"
      from s st ri have "it = item" by simp
      with f ex have g: "\<forall>y. needs_sync (f y) = Some False \<and> external_dms_id (f y) = Some x"
        by (simp add: assign_def)
      show "all_in_sync (doc_id d) w'"
        unfolding all_in_sync_def m using g by (auto simp: in_sync_def)
    qed
    from other this show ?thesis by blast
  qed
qed

lemma push_loop_sync:
  "distinct (map doc_id docs) \<Longrightarrow> push_loop e cfg opts docs (res, w) = (res', w') \<Longrightarrow>
     (\<forall>i. i \<notin> doc_id ` set docs \<longrightarrow> all_in_sync i w \<longrightarrow> all_in_sync i w') \<and>
     (\<forall>r \<in> set (drop (length res) res').
        item_status r = ''success'' \<and> (\<exists>x. externalId r = Str x) \<longrightarrow>
        (\<forall>i. documentId r = Some i \<longrightarrow> all_in_sync i w'))"
proof (induction docs arbitrary: res w)
  case Nil
  then show ?case by simp
next
  case (Cons d docs)
  from Cons.prems(1) have dist: "distinct (map doc_id docs)" and
    fresh: "doc_id d \<notin> doc_id ` set docs" by auto
  obtain item w1 where it: "push_item e cfg opts w d = (item, w1)"
    by (cases "push_item e cfg opts w d")
  with Cons.prems have l: "push_loop e cfg opts docs (res @ [item], w1) = (res', w')" by simp
  from Cons.IH [OF dist l] have
    p: "\<forall>i. i \<notin> doc_id ` set docs \<longrightarrow> all_in_sync i w1 \<longrightarrow> all_in_sync i w'" and
    q: "\<forall>r \<in> set (drop (Suc (length res)) res').
          item_status r = ''success'' \<and> (\<exists>x. externalId r = Str x) \<longrightarrow>
          (\<forall>i. documentId r = Some i \<longrightarrow> all_in_sync i w')" by simp_all
  from push_loop_entries [OF l] obtain new where n: "res' = (res @ [item]) @ new" by blast
  then have dr: "drop (length res) res' = item # drop (Suc (length res)) res'" by simp
  have a: "\<forall>i. i \<noteq> doc_id d \<longrightarrow> all_in_sync i w \<longrightarrow> all_in_sync i w1"
    using push_item_sync [OF it] by blast
  have b: "item_status item = ''success'' \<and> (\<exists>x. externalId item = Str x) \<longrightarrow>
      all_in_sync (doc_id d) w1"
    using push_item_sync [OF it] by blast
  from push_item_entry [OF it] have c: "documentId item = Some (doc_id d)" by simp
  have first: "\<forall>i. i \<notin> doc_id ` set (d # docs) \<longrightarrow> all_in_sync i w \<longrightarrow> all_in_sync i w'"
    using a p by auto
  have here: "item_status item = ''success'' \<and> (\<exists>x. externalId item = Str x) \<longrightarrow>
      (\<forall>i. documentId item = Some i \<longrightarrow> all_in_sync i w')"
    using b c p fresh by auto
  show ?case unfolding dr using first here q by auto
qed

subsection \<open>Upload failures (claim C1)\<close>

lemma push_item_requests:
  assumes "push_item e cfg opts w d = (item, w')"
  shows "\<exists>rs. requests w' = requests w @ rs \<and> length (filter is_upload rs) \<le> 1"
proof -
  from push_item_try [OF assms] obtain r where "push_try e cfg opts w d = (r, w')" by blast
  from push_try_cases [OF this] show ?thesis by blast
qed

lemma sharepoint_upload_not_ok:
  assumes "config_type cfg = sharepoint"
      and "getSharePointAccessToken e (authentication cfg) w = (Inr tok, wt)"
      and "has_scheme (upload_url cfg d)"
      and "respond e (requests wt) (upload_request cfg d tok b) = Response r"
      and "\<not> ok r"
  shows "uploadToExternalDMS e cfg d b w =
     (Inl (''SharePoint upload failed: '' @ statusText r),
      wt\<lparr>requests := requests wt @ [upload_request cfg d tok b]\<rparr>)"
proof -
  have "request_url (upload_request cfg d tok b) = upload_url cfg d"
    by (simp add: upload_request_def request_url_def)
  with assms(3,4) have "fetch e (upload_request cfg d tok b) wt =
      (Response r, wt\<lparr>requests := requests wt @ [upload_request cfg d tok b]\<rparr>)"
    by (simp add: fetch_def)
  with assms(1,2,5) show ?thesis
    by (simp add: uploadToExternalDMS_def uploadToSharePoint_def)
qed

lemma push_item_upload_failure:
  assumes "\<not> truthy (dryRun opts)"
      and "download e (storage_path d) = Inr b"
      and "uploadToExternalDMS e cfg d b w = (Inl m, wu)"
  shows "push_item e cfg opts w d =
     (\<lparr>documentId = Some (doc_id d), externalId = Undefined, item_status = ''error'',
       item_action = None, item_error = Some m\<rparr>, wu)"
  using assms by (simp add: push_item_def push_try_def)

lemma flaky_env_config: "find_config flaky_env None = Some main_config"
  by code_simp

text \<open>
  Claim C1 says that an upload that fails with a transient error, a 5xx response for one,
  is retried up to the configured count before the item is recorded as failed. The push
  never retries. Below, the configuration's \<open>retryAttempts\<close> is 3 and SharePoint answers
  the first upload of \<^verbatim>\<open>b.pdf\<close> with a 503 and would answer the next one with a 200: the
  run calls \<^verbatim>\<open>fetch\<close> once for the upload of that file and reports the item as failed,
  with the message of the error and nothing that tells the kind of error.
\<close>

theorem push_retry_counterexample:
  "find_config flaky_env None = Some main_config \<and>
   retryAttempts (syncSettings main_config) = 3 \<and>
   map_sum id (\<lambda>r. (successful r, failed r, map item_error (results r)))
     (fst (pushDocumentsToDMS flaky_env three_docs None None no_options)) =
   Inr (2, 1, [None, Some ''SharePoint upload failed: Service Unavailable'', None]) \<and>
   length (uploads_of main_config doc_b
     (requests (snd (pushDocumentsToDMS flaky_env three_docs None None no_options)))) = 1 \<and>
   respond flaky_env
     (requests (snd (pushDocumentsToDMS flaky_env three_docs None None no_options)))
     (upload_request main_config doc_b (Str ''token'') ''bytes'') = upload_ok 4"
proof -
  have "retryAttempts (syncSettings main_config) = 3" by (simp add: main_config_def)
  moreover have "map_sum id (\<lambda>r. (successful r, failed r, map item_error (results r)))
     (fst (pushDocumentsToDMS flaky_env three_docs None None no_options)) =
   Inr (2, 1, [None, Some ''SharePoint upload failed: Service Unavailable'', None])"
    by code_simp
  moreover have "length (uploads_of main_config doc_b
     (requests (snd (pushDocumentsToDMS flaky_env three_docs None None no_options)))) = 1"
    by code_simp
  moreover have "respond flaky_env
     (requests (snd (pushDocumentsToDMS flaky_env three_docs None None no_options)))
     (upload_request main_config doc_b (Str ''token'') ''bytes'') = upload_ok 4"
    by code_simp
  ultimately show ?thesis using flaky_env_config by simp
qed

text \<open>
  Claim C1, amended. A push attempts the upload of a candidate document at most once:
  processing one item adds at most one upload to the calls of \<^verbatim>\<open>fetch\<close>. When the upload
  fails, whatever the failure, the item is recorded at once with the status \<open>error\<close> and
  the error's message, and no kind of error is recorded; for SharePoint, a response to
  the upload that is not ok, a 503 as much as a 401 or a 400, gives the message
  \<^verbatim>\<open>SharePoint upload failed:\<close> followed by the status text. In particular, pushing three
  documents of which the second is answered with a 503 gives a report with two
  successful items and one failed item.
\<close>

theorem push_uploads_once:
  "(push_item e cfg opts w d = (item, w') \<longrightarrow>
      (\<exists>rs. requests w' = requests w @ rs \<and> length (filter is_upload rs) \<le> 1)) \<and>
   (\<not> truthy (dryRun opts) \<and> download e (storage_path d) = Inr b \<and>
      uploadToExternalDMS e cfg d b w = (Inl m, wu) \<longrightarrow>
      push_item e cfg opts w d =
        (\<lparr>documentId = Some (doc_id d), externalId = Undefined, item_status = ''error'',
          item_action = None, item_error = Some m\<rparr>, wu)) \<and>
   (config_type cfg = sharepoint \<and>
      getSharePointAccessToken e (authentication cfg) w = (Inr tok, wt) \<and>
      has_scheme (upload_url cfg d) \<and>
      respond e (requests wt) (upload_request cfg d tok b) = Response r \<and>
      \<not> ok r \<longrightarrow>
      uploadToExternalDMS e cfg d b w =
        (Inl (''SharePoint upload failed: '' @ statusText r),
         wt\<lparr>requests := requests wt @ [upload_request cfg d tok b]\<rparr>))"
  using push_item_requests [of e cfg opts w d item w']
    push_item_upload_failure [of opts e d b cfg w m wu]
    sharepoint_upload_not_ok [of cfg e w tok wt d b r]
  by blast

lemma down_env_token:
  "getSharePointAccessToken down_env (authentication main_config) three_docs =
     (Inr (Str ''token''),
      three_docs\<lparr>requests := [token_request (authentication main_config)]\<rparr>)"
  by code_simp

lemma down_env_url: "has_scheme (upload_url main_config doc_b)"
  by code_simp

lemma down_env_answer:
  "respond down_env [token_request (authentication main_config)]
     (upload_request main_config doc_b (Str ''token'') ''bytes'') =
   Response \<lparr>ok = False, http_status = 503, statusText = ''Service Unavailable'',
             payload = NotJson ''Unexpected end of JSON input''\<rparr>"
  by code_simp

lemma down_env_report:
  "map_sum id (\<lambda>r. (successful r, failed r, map item_error (results r)))
     (fst (pushDocumentsToDMS down_env three_docs None None no_options)) =
   Inr (2, 1, [None, Some ''SharePoint upload failed: Service Unavailable'', None])"
  by code_simp

lemma down_env_uploads:
  "length (uploads_of main_config doc_b
     (requests (snd (pushDocumentsToDMS down_env three_docs None None no_options)))) = 1"
  by code_simp

theorem push_uploads_once_witness:
  "\<not> truthy (dryRun no_options) \<and>
   download down_env (storage_path doc_b) = Inr ''bytes'' \<and>
   config_type main_config = sharepoint \<and>
   has_scheme (upload_url main_config doc_b) \<and>
   push_item down_env main_config no_options three_docs doc_b =
     (\<lparr>documentId = Some ''doc-2'', externalId = Undefined, item_status = ''error'',
       item_action = None,
       item_error = Some ''SharePoint upload failed: Service Unavailable''\<rparr>,
      three_docs\<lparr>requests := [token_request (authentication main_config),
                                upload_request main_config doc_b (Str ''token'') ''bytes'']\<rparr>) \<and>
   map_sum id (\<lambda>r. (successful r, failed r, map item_error (results r)))
     (fst (pushDocumentsToDMS down_env three_docs None None no_options)) =
   Inr (2, 1, [None, Some ''SharePoint upload failed: Service Unavailable'', None]) \<and>
   length (uploads_of main_config doc_b
     (requests (snd (pushDocumentsToDMS down_env three_docs None None no_options)))) = 1"
proof -
  let ?tr = "token_request (authentication main_config)"
  let ?ur = "upload_request main_config doc_b (Str ''token'') ''bytes''"
  let ?w1 = "three_docs\<lparr>requests := [?tr]\<rparr>"
  let ?w2 = "three_docs\<lparr>requests := [?tr, ?ur]\<rparr>"
  let ?r = "\<lparr>ok = False, http_status = 503, statusText = ''Service Unavailable'',
             payload = NotJson ''Unexpected end of JSON input''\<rparr>"
  let ?m = "''SharePoint upload failed: Service Unavailable''"
  have nd: "\<not> truthy (dryRun no_options)" by (simp add: truthy_def no_options_def)
  have dl: "download down_env (storage_path doc_b) = Inr ''bytes''"
    by (simp add: down_env_def quiet_env_def)
  have sp: "config_type main_config = sharepoint" by (simp add: main_config_def)
  have id: "doc_id doc_b = ''doc-2''" by (simp add: doc_b_def local_doc_def)
  note failed = push_uploads_once
    [where e = down_env and cfg = main_config and w = three_docs and d = doc_b
       and b = "''bytes''" and tok = "Str ''token''" and wt = ?w1 and r = ?r,
     THEN conjunct2, THEN conjunct2, rule_format]
  have "uploadToExternalDMS down_env main_config doc_b ''bytes'' three_docs =
      (Inl (''SharePoint upload failed: '' @ statusText ?r),
       ?w1\<lparr>requests := requests ?w1 @ [?ur]\<rparr>)"
    by (rule failed) (simp add: sp down_env_token down_env_url down_env_answer)
  then have up: "uploadToExternalDMS down_env main_config doc_b ''bytes'' three_docs =
      (Inl ?m, ?w2)"
    by simp
  note recorded = push_uploads_once
    [where e = down_env and cfg = main_config and opts = no_options and w = three_docs
       and d = doc_b and b = "''bytes''" and m = ?m and wu = ?w2,
     THEN conjunct2, THEN conjunct1, rule_format]
  have "push_item down_env main_config no_options three_docs doc_b =
     (\<lparr>documentId = Some (doc_id doc_b), externalId = Undefined, item_status = ''error'',
       item_action = None, item_error = Some ?m\<rparr>, ?w2)"
    by (rule recorded) (simp add: nd dl up)
  then show ?thesis using nd dl sp id down_env_url down_env_report down_env_uploads by simp
qed

subsection \<open>Pushing twice (claim C8)\<close>

lemma default_candidates:
  assumes "ids = None \<or> ids = Some []" "d \<in> set (candidate_documents w ids)"
  shows "d \<in> set (documents w) \<and> (external_dms_id d = None \<or> needs_sync d = Some True)"
  using assms by (auto simp: candidate_documents_def Let_def)

lemma default_candidates_iff:
  assumes "ids = None \<or> ids = Some []"
  shows "d \<in> set (candidate_documents w ids) \<longleftrightarrow>
     d \<in> set (documents w) \<and> (\<exists>a. application_id d = Some a \<and> a \<in> set (applications w)) \<and>
     (external_dms_id d = None \<or> needs_sync d = Some True)"
  using assms by (auto simp: candidate_documents_def Let_def split: option.splits)

lemma listed_candidates_iff:
  "d \<in> set (candidate_documents w (Some (i # rest))) \<longleftrightarrow>
     d \<in> set (documents w) \<and> (\<exists>a. application_id d = Some a \<and> a \<in> set (applications w)) \<and>
     doc_id d \<in> set (i # rest)"
  by (auto simp: candidate_documents_def Let_def split: option.splits)

lemma candidates_distinct:
  "distinct (map doc_id (documents w)) \<Longrightarrow> distinct (map doc_id (candidate_documents w ids))"
  by (auto simp: candidate_documents_def Let_def distinct_map_filter
      split: option.splits list.splits)

lemma pushed_rows_in_sync:
  assumes uniq: "distinct (map doc_id (documents w))"
      and run: "pushDocumentsToDMS e w sys ids opts = (Inr rep, w')"
      and r: "r \<in> set (results rep)" "item_status r = ''success''" "externalId r = Str x"
        "documentId r = Some i"
  shows "all_in_sync i w'"
proof -
  from pushDocumentsToDMS_Inr [OF run] obtain cfg res where
    l: "push_loop e cfg opts (candidate_documents w ids) ([], w) = (res, w')" and
    rep: "rep = make_report (length (candidate_documents w ids)) res" by blast
  from r(1) rep have "r \<in> set (drop (length ([]::sync_item list)) res)"
    by (simp add: make_report_def)
  with push_loop_sync [OF candidates_distinct [OF uniq] l] r(2,3,4) show ?thesis by blast
qed

lemma pushed_not_candidate:
  assumes uniq: "distinct (map doc_id (documents w))"
      and run: "pushDocumentsToDMS e w sys ids opts = (Inr rep, w')"
      and r: "r \<in> set (results rep)" "item_status r = ''success''" "externalId r = Str x"
      and scope: "ids2 = None \<or> ids2 = Some []"
      and d: "d \<in> set (candidate_documents w' ids2)"
  shows "documentId r \<noteq> Some (doc_id d)"
proof
  assume eq: "documentId r = Some (doc_id d)"
  from pushed_rows_in_sync [OF uniq run r eq] have "all_in_sync (doc_id d) w'" .
  moreover from default_candidates [OF scope d] have
    "d \<in> set (documents w')" "external_dms_id d = None \<or> needs_sync d = Some True"
    by simp_all
  ultimately show False by (auto simp: all_in_sync_def in_sync_def)
qed

text \<open>
  Every row after a push comes from a row before it, with the same id and application,
  and is that row unless its document was among those pushed.
\<close>

lemma push_item_rows:
  assumes "push_item e cfg opts w d = (item, w')"
  shows "applications w' = applications w \<and>
         (\<forall>y \<in> set (documents w'). \<exists>x \<in> set (documents w).
            doc_id y = doc_id x \<and> application_id y = application_id x \<and>
            (y = x \<or> doc_id x = doc_id d))"
proof -
  from push_item_try [OF assms] obtain r where t: "push_try e cfg opts w d = (r, w')" by blast
  from push_try_cases [OF t] have a: "applications w' = applications w" and
    c: "documents w' = documents w \<or>
     (\<exists>f. (\<forall>x. doc_id (f x) = doc_id x \<and> application_id (f x) = application_id x) \<and>
           documents w' = map (\<lambda>x. if doc_id x = doc_id d then f x else x) (documents w))"
    by blast+
  from c have "\<forall>y \<in> set (documents w'). \<exists>x \<in> set (documents w).
            doc_id y = doc_id x \<and> application_id y = application_id x \<and>
            (y = x \<or> doc_id x = doc_id d)"
  proof
    assume "documents w' = documents w"
    then show ?thesis by auto
  next
    assume "\<exists>f. (\<forall>x. doc_id (f x) = doc_id x \<and> application_id (f x) = application_id x) \<and>
           documents w' = map (\<lambda>x. if doc_id x = doc_id d then f x else x) (documents w)"
    then obtain f where
      f: "\<forall>x. doc_id (f x) = doc_id x \<and> application_id (f x) = application_id x" and
      m: "documents w' = map (\<lambda>x. if doc_id x = doc_id d then f x else x) (documents w)"
      by blast
    show ?thesis
    proof
      fix y assume "y \<in> set (documents w')"
      with m obtain x where x: "x \<in> set (documents w)"
        and y: "y = (if doc_id x = doc_id d then f x else x)" by auto
      from y f have "doc_id y = doc_id x \<and> application_id y = application_id x \<and>
          (y = x \<or> doc_id x = doc_id d)" by (cases "doc_id x = doc_id d") simp_all
      with x show "\<exists>x \<in> set (documents w).
            doc_id y = doc_id x \<and> application_id y = application_id x \<and>
            (y = x \<or> doc_id x = doc_id d)" by blast
    qed
  qed
  with a show ?thesis by simp
qed

lemma push_loop_rows:
  "push_loop e cfg opts docs (res, w) = (res', w') \<Longrightarrow>
     applications w' = applications w \<and>
     (\<forall>y \<in> set (documents w'). \<exists>x \<in> set (documents w).
        doc_id y = doc_id x \<and> application_id y = application_id x \<and>
        (y = x \<or> doc_id x \<in> doc_id ` set docs))"
proof (induction docs arbitrary: res w)
  case Nil
  then show ?case by auto
next
  case (Cons d docs)
  obtain item w1 where it: "push_item e cfg opts w d = (item, w1)"
    by (cases "push_item e cfg opts w d")
  with Cons.prems have l: "push_loop e cfg opts docs (res @ [item], w1) = (res', w')" by simp
  from Cons.IH [OF l] have a2: "applications w' = applications w1" and
    r2: "\<forall>y \<in> set (documents w'). \<exists>x \<in> set (documents w1).
        doc_id y = doc_id x \<and> application_id y = application_id x \<and>
        (y = x \<or> doc_id x \<in> doc_id ` set docs)" by simp_all
  from push_item_rows [OF it] have a1: "applications w1 = applications w" and
    r1: "\<forall>y \<in> set (documents w1). \<exists>x \<in> set (documents w).
        doc_id y = doc_id x \<and> application_id y = application_id x \<and>
        (y = x \<or> doc_id x = doc_id d)" by simp_all
  have "\<forall>z \<in> set (documents w'). \<exists>x \<in> set (documents w).
        doc_id z = doc_id x \<and> application_id z = application_id x \<and>
        (z = x \<or> doc_id x \<in> doc_id ` set (d # docs))"
  proof
    fix z assume "z \<in> set (documents w')"
    with r2 obtain y where y: "y \<in> set (documents w1)" "doc_id z = doc_id y"
      "application_id z = application_id y" "z = y \<or> doc_id y \<in> doc_id ` set docs" by blast
    from r1 y(1) obtain x where x: "x \<in> set (documents w)" "doc_id y = doc_id x"
      "application_id y = application_id x" "y = x \<or> doc_id x = doc_id d" by blast
    from y x have "doc_id z = doc_id x \<and> application_id z = application_id x \<and>
        (z = x \<or> doc_id x \<in> doc_id ` set (d # docs))" by auto
    with x(1) show "\<exists>x \<in> set (documents w).
        doc_id z = doc_id x \<and> application_id z = application_id x \<and>
        (z = x \<or> doc_id x \<in> doc_id ` set (d # docs))" by blast
  qed
  with a1 a2 show ?case by simp
qed

lemma nothing_left_to_push:
  assumes uniq: "distinct (map doc_id (documents w))"
      and run: "pushDocumentsToDMS e w sys ids opts = (Inr rep, w')"
      and scope1: "ids = None \<or> ids = Some []"
      and ok: "\<forall>r \<in> set (results rep). item_status r = ''success'' \<and> (\<exists>x. externalId r = Str x)"
      and scope2: "ids2 = None \<or> ids2 = Some []"
  shows "candidate_documents w' ids2 = []"
proof (rule ccontr)
  assume "candidate_documents w' ids2 \<noteq> []"
  then obtain z where z: "z \<in> set (candidate_documents w' ids2)"
    by (cases "candidate_documents w' ids2") auto
  then have z': "z \<in> set (documents w')"
    "\<exists>a. application_id z = Some a \<and> a \<in> set (applications w')"
    "external_dms_id z = None \<or> needs_sync z = Some True"
    by (simp_all add: default_candidates_iff [OF scope2])
  from pushDocumentsToDMS_Inr [OF run] obtain cfg res where
    l: "push_loop e cfg opts (candidate_documents w ids) ([], w) = (res, w')" by blast
  from push_loop_rows [OF l] z'(1) obtain x where a: "applications w' = applications w" and
    x: "x \<in> set (documents w)" "doc_id z = doc_id x" "application_id z = application_id x"
       "z = x \<or> doc_id x \<in> doc_id ` set (candidate_documents w ids)" by blast
  have "doc_id x \<in> doc_id ` set (candidate_documents w ids)"
  proof (cases "z = x")
    case True
    with x(1) z'(2,3) a have "x \<in> set (candidate_documents w ids)"
      by (simp add: default_candidates_iff [OF scope1])
    then show ?thesis by blast
  next
    case False
    with x(4) show ?thesis by simp
  qed
  then have "Some (doc_id z) \<in> set (map (\<lambda>d. Some (doc_id d)) (candidate_documents w ids))"
    using x(2) by auto
  with push_results [OF run] have "Some (doc_id z) \<in> set (map documentId (results rep))" by simp
  then obtain r where r: "r \<in> set (results rep)" "documentId r = Some (doc_id z)" by auto
  with ok obtain y where "item_status r = ''success''" "externalId r = Str y" by blast
  from pushed_not_candidate [OF uniq run r(1) this scope2 z] r(2) show False by simp
qed

text \<open>
  Claim C8 says that a second push, with no local change in between, uploads nothing,
  because the selection never returns a document that has an external id unless it is
  marked dirty. With an explicit list of document ids the selection returns the listed
  documents whatever their state: below, the second push of \<^verbatim>\<open>doc-1\<close> selects the
  document although it has an external id and \<open>needs_sync\<close> is false, uploads it again
  and reports one more success. And a document stays without an external id when the
  upload is answered with a 200 that names no \<^verbatim>\<open>UniqueId\<close>: below, the second of two pushes
  without a list of ids selects \<^verbatim>\<open>doc-1\<close> again, uploads it again and reports one more
  success.
\<close>

theorem push_twice_counterexample:
  "map_sum id successful
     (fst (pushDocumentsToDMS quiet_env one_doc None (Some [''doc-1'']) no_options)) = Inr 1 \<and>
   map (\<lambda>d. (doc_id d, external_dms_id d, needs_sync d))
     (candidate_documents
        (snd (pushDocumentsToDMS quiet_env one_doc None (Some [''doc-1'']) no_options))
        (Some [''doc-1''])) = [(''doc-1'', Some ''sp-1'', Some False)] \<and>
   map_sum id successful
     (fst (pushDocumentsToDMS quiet_env
        (snd (pushDocumentsToDMS quiet_env one_doc None (Some [''doc-1'']) no_options))
        None (Some [''doc-1'']) no_options)) = Inr 1 \<and>
   length (uploads_of main_config doc_a
     (requests (snd (pushDocumentsToDMS quiet_env
        (snd (pushDocumentsToDMS quiet_env one_doc None (Some [''doc-1'']) no_options))
        None (Some [''doc-1'']) no_options)))) = 2 \<and>
   map_sum id successful
     (fst (pushDocumentsToDMS anonymous_env one_doc None None no_options)) = Inr 1 \<and>
   map (\<lambda>d. (doc_id d, external_dms_id d, needs_sync d))
     (candidate_documents
        (snd (pushDocumentsToDMS anonymous_env one_doc None None no_options)) None) =
     [(''doc-1'', None, Some False)] \<and>
   map_sum id successful
     (fst (pushDocumentsToDMS anonymous_env
        (snd (pushDocumentsToDMS anonymous_env one_doc None None no_options))
        None None no_options)) = Inr 1 \<and>
   length (uploads_of main_config doc_a
     (requests (snd (pushDocumentsToDMS anonymous_env
        (snd (pushDocumentsToDMS anonymous_env one_doc None None no_options))
        None None no_options)))) = 2"
proof -
  have "map_sum id successful
     (fst (pushDocumentsToDMS quiet_env one_doc None (Some [''doc-1'']) no_options)) = Inr 1"
    by code_simp
  moreover have "map (\<lambda>d. (doc_id d, external_dms_id d, needs_sync d))
     (candidate_documents
        (snd (pushDocumentsToDMS quiet_env one_doc None (Some [''doc-1'']) no_options))
        (Some [''doc-1''])) = [(''doc-1'', Some ''sp-1'', Some False)]"
    by code_simp
  moreover have "map_sum id successful
     (fst (pushDocumentsToDMS quiet_env
        (snd (pushDocumentsToDMS quiet_env one_doc None (Some [''doc-1'']) no_options))
        None (Some [''doc-1'']) no_options)) = Inr 1"
    by code_simp
  moreover have "length (uploads_of main_config doc_a
     (requests (snd (pushDocumentsToDMS quiet_env
        (snd (pushDocumentsToDMS quiet_env one_doc None (Some [''doc-1'']) no_options))
        None (Some [''doc-1'']) no_options)))) = 2"
    by code_simp
  moreover have "map_sum id successful
     (fst (pushDocumentsToDMS anonymous_env one_doc None None no_options)) = Inr 1"
    by code_simp
  moreover have "map (\<lambda>d. (doc_id d, external_dms_id d, needs_sync d))
     (candidate_documents
        (snd (pushDocumentsToDMS anonymous_env one_doc None None no_options)) None) =
     [(''doc-1'', None, Some False)]"
    by code_simp
  moreover have "map_sum id successful
     (fst (pushDocumentsToDMS anonymous_env
        (snd (pushDocumentsToDMS anonymous_env one_doc None None no_options))
        None None no_options)) = Inr 1"
    by code_simp
  moreover have "length (uploads_of main_config doc_a
     (requests (snd (pushDocumentsToDMS anonymous_env
        (snd (pushDocumentsToDMS anonymous_env one_doc None None no_options))
        None None no_options)))) = 2"
    by code_simp
  ultimately show ?thesis by (intro conjI)
qed

text \<open>
  Claim C8, amended. A push without a list of document ids selects only documents that
  have no external id or whose \<open>needs_sync\<close> is true. Document ids being unique, every
  item that a push reports as a success with an external id, the id that the DMS gave
  the upload, leaves each row of that document with an external id and with \<open>needs_sync\<close>
  false. So a following push without a list of document ids, run on the world the first
  one left, has no entry, and therefore no successful upload, for such a document; and
  after a push without a list of ids in which every item succeeded with an external id,
  the following one finds nothing to push: its report is empty and it leaves the world as
  it found it. A push given a list of ids that is not empty selects the listed documents
  that have an application, whatever their external id and \<open>needs_sync\<close>, and its report
  has an entry for each of them.
\<close>

theorem push_twice_default_scope:
  "((ids2 = None \<or> ids2 = Some []) \<longrightarrow>
      (\<forall>d \<in> set (candidate_documents w ids2).
         external_dms_id d = None \<or> needs_sync d = Some True)) \<and>
   (distinct (map doc_id (documents w)) \<and>
      pushDocumentsToDMS e w sys ids opts = (Inr rep, w') \<and>
      r \<in> set (results rep) \<and> item_status r = ''success'' \<and> externalId r = Str x \<longrightarrow>
      (\<forall>d \<in> set (documents w'). documentId r = Some (doc_id d) \<longrightarrow>
         external_dms_id d \<noteq> None \<and> needs_sync d = Some False)) \<and>
   (distinct (map doc_id (documents w)) \<and>
      pushDocumentsToDMS e w sys ids opts = (Inr rep, w') \<and>
      r \<in> set (results rep) \<and> item_status r = ''success'' \<and> externalId r = Str x \<and>
      (ids2 = None \<or> ids2 = Some []) \<and>
      pushDocumentsToDMS e2 w' sys2 ids2 opts2 = (Inr rep2, w'') \<longrightarrow>
      (\<forall>r2 \<in> set (results rep2). documentId r2 \<noteq> documentId r)) \<and>
   (distinct (map doc_id (documents w)) \<and>
      pushDocumentsToDMS e w sys ids opts = (Inr rep, w') \<and>
      (ids = None \<or> ids = Some []) \<and>
      (\<forall>r \<in> set (results rep). item_status r = ''success'' \<and> (\<exists>x. externalId r = Str x)) \<and>
      (ids2 = None \<or> ids2 = Some []) \<and>
      pushDocumentsToDMS e2 w' sys2 ids2 opts2 = (Inr rep2, w'') \<longrightarrow>
      results rep2 = [] \<and> totalDocuments rep2 = 0 \<and> successful rep2 = 0 \<and> w'' = w') \<and>
   (\<forall>d. d \<in> set (candidate_documents w (Some (i # rest))) \<longleftrightarrow>
      d \<in> set (documents w) \<and>
      (\<exists>a. application_id d = Some a \<and> a \<in> set (applications w)) \<and>
      doc_id d \<in> set (i # rest)) \<and>
   (pushDocumentsToDMS e w sys (Some (i # rest)) opts = (Inr rep, w') \<longrightarrow>
      map documentId (results rep) =
        map (\<lambda>d. Some (doc_id d)) (candidate_documents w (Some (i # rest))))"
proof -
  have A: "(ids2 = None \<or> ids2 = Some []) \<longrightarrow>
      (\<forall>d \<in> set (candidate_documents w ids2).
         external_dms_id d = None \<or> needs_sync d = Some True)"
    using default_candidates [of ids2 _ w] by blast
  have B: "distinct (map doc_id (documents w)) \<and>
      pushDocumentsToDMS e w sys ids opts = (Inr rep, w') \<and>
      r \<in> set (results rep) \<and> item_status r = ''success'' \<and> externalId r = Str x \<longrightarrow>
      (\<forall>d \<in> set (documents w'). documentId r = Some (doc_id d) \<longrightarrow>
         external_dms_id d \<noteq> None \<and> needs_sync d = Some False)"
  proof (intro impI ballI)
    fix d
    assume a: "distinct (map doc_id (documents w)) \<and>
      pushDocumentsToDMS e w sys ids opts = (Inr rep, w') \<and>
      r \<in> set (results rep) \<and> item_status r = ''success'' \<and> externalId r = Str x"
      and d: "d \<in> set (documents w')" and eq: "documentId r = Some (doc_id d)"
    from a eq have "all_in_sync (doc_id d) w'"
      using pushed_rows_in_sync [of w e sys ids opts rep w' r x "doc_id d"] by blast
    with d show "external_dms_id d \<noteq> None \<and> needs_sync d = Some False"
      by (simp add: all_in_sync_def in_sync_def)
  qed
  have C: "distinct (map doc_id (documents w)) \<and>
      pushDocumentsToDMS e w sys ids opts = (Inr rep, w') \<and>
      r \<in> set (results rep) \<and> item_status r = ''success'' \<and> externalId r = Str x \<and>
      (ids2 = None \<or> ids2 = Some []) \<and>
      pushDocumentsToDMS e2 w' sys2 ids2 opts2 = (Inr rep2, w'') \<longrightarrow>
      (\<forall>r2 \<in> set (results rep2). documentId r2 \<noteq> documentId r)"
  proof (intro impI ballI)
    fix r2
    assume a: "distinct (map doc_id (documents w)) \<and>
      pushDocumentsToDMS e w sys ids opts = (Inr rep, w') \<and>
      r \<in> set (results rep) \<and> item_status r = ''success'' \<and> externalId r = Str x \<and>
      (ids2 = None \<or> ids2 = Some []) \<and>
      pushDocumentsToDMS e2 w' sys2 ids2 opts2 = (Inr rep2, w'')"
      and r2: "r2 \<in> set (results rep2)"
    from a have run2: "pushDocumentsToDMS e2 w' sys2 ids2 opts2 = (Inr rep2, w'')" by blast
    from push_results [OF run2] have
      m: "map documentId (results rep2) =
            map (\<lambda>d. Some (doc_id d)) (candidate_documents w' ids2)" by blast
    from r2 have "documentId r2 \<in> set (map documentId (results rep2))" by simp
    with m obtain d where d: "d \<in> set (candidate_documents w' ids2)"
      and e2: "documentId r2 = Some (doc_id d)" by auto
    from a d have "documentId r \<noteq> Some (doc_id d)"
      using pushed_not_candidate [of w e sys ids opts rep w' r x ids2 d] by blast
    with e2 show "documentId r2 \<noteq> documentId r" by simp
  qed
  have D: "distinct (map doc_id (documents w)) \<and>
      pushDocumentsToDMS e w sys ids opts = (Inr rep, w') \<and>
      (ids = None \<or> ids = Some []) \<and>
      (\<forall>r \<in> set (results rep). item_status r = ''success'' \<and> (\<exists>x. externalId r = Str x)) \<and>
      (ids2 = None \<or> ids2 = Some []) \<and>
      pushDocumentsToDMS e2 w' sys2 ids2 opts2 = (Inr rep2, w'') \<longrightarrow>
      results rep2 = [] \<and> totalDocuments rep2 = 0 \<and> successful rep2 = 0 \<and> w'' = w'"
  proof (rule impI)
    assume a: "distinct (map doc_id (documents w)) \<and>
      pushDocumentsToDMS e w sys ids opts = (Inr rep, w') \<and>
      (ids = None \<or> ids = Some []) \<and>
      (\<forall>r \<in> set (results rep). item_status r = ''success'' \<and> (\<exists>x. externalId r = Str x)) \<and>
      (ids2 = None \<or> ids2 = Some []) \<and>
      pushDocumentsToDMS e2 w' sys2 ids2 opts2 = (Inr rep2, w'')"
    then have none: "candidate_documents w' ids2 = []"
      using nothing_left_to_push [of w e sys ids opts rep w' ids2] by blast
    from a have run2: "pushDocumentsToDMS e2 w' sys2 ids2 opts2 = (Inr rep2, w'')" by blast
    from pushDocumentsToDMS_Inr [OF run2] obtain cfg res where
      l: "push_loop e2 cfg opts2 (candidate_documents w' ids2) ([], w') = (res, w'')" and
      r: "rep2 = make_report (length (candidate_documents w' ids2)) res" by blast
    from l none have "res = []" "w'' = w'" by simp_all
    with r none
    show "results rep2 = [] \<and> totalDocuments rep2 = 0 \<and> successful rep2 = 0 \<and> w'' = w'"
      by (simp add: make_report_def count_status_def)
  qed
  have E: "\<forall>d. d \<in> set (candidate_documents w (Some (i # rest))) \<longleftrightarrow>
      d \<in> set (documents w) \<and>
      (\<exists>a. application_id d = Some a \<and> a \<in> set (applications w)) \<and>
      doc_id d \<in> set (i # rest)"
    using listed_candidates_iff [of _ w i rest] by blast
  have F: "pushDocumentsToDMS e w sys (Some (i # rest)) opts = (Inr rep, w') \<longrightarrow>
      map documentId (results rep) =
        map (\<lambda>d. Some (doc_id d)) (candidate_documents w (Some (i # rest)))"
    using push_results [of e w sys "Some (i # rest)" opts rep w'] by blast
  from A B C D E F show ?thesis by (intro conjI)
qed

lemma quiet_first_push:
  "pushDocumentsToDMS quiet_env one_doc None None no_options =
     (Inr \<lparr>totalDocuments = 1, successful = 1, failed = 0, report_dryRun = 0,
           results = [\<lparr>documentId = Some ''doc-1'', externalId = Str ''sp-1'',
                       item_status = ''success'', item_action = Some ''synced'',
                       item_error = None\<rparr>]\<rparr>,
      snd (pushDocumentsToDMS quiet_env one_doc None None no_options))"
  by code_simp

lemma quiet_second_push:
  "pushDocumentsToDMS quiet_env
     (snd (pushDocumentsToDMS quiet_env one_doc None None no_options)) None None no_options =
     (Inr \<lparr>totalDocuments = 0, successful = 0, failed = 0, report_dryRun = 0, results = []\<rparr>,
      snd (pushDocumentsToDMS quiet_env one_doc None None no_options))"
  by code_simp

lemma quiet_first_rows:
  "map (\<lambda>d. (doc_id d, external_dms_id d, needs_sync d))
     (documents (snd (pushDocumentsToDMS quiet_env one_doc None None no_options))) =
   [(''doc-1'', Some ''sp-1'', Some False)]"
  by code_simp

lemma one_doc_distinct: "distinct (map doc_id (documents one_doc))"
  by (simp add: one_doc_def)

lemma quiet_listed_push:
  "pushDocumentsToDMS quiet_env
     (snd (pushDocumentsToDMS quiet_env one_doc None None no_options)) None
     (Some [''doc-1'']) no_options =
   (Inr \<lparr>totalDocuments = 1, successful = 1, failed = 0, report_dryRun = 0,
         results = [\<lparr>documentId = Some ''doc-1'', externalId = Str ''sp-2'',
                     item_status = ''success'', item_action = Some ''synced'',
                     item_error = None\<rparr>]\<rparr>,
    snd (pushDocumentsToDMS quiet_env
           (snd (pushDocumentsToDMS quiet_env one_doc None None no_options)) None
           (Some [''doc-1'']) no_options))"
  by code_simp

theorem push_twice_default_scope_witness:
  "distinct (map doc_id (documents one_doc)) \<and>
   pushDocumentsToDMS quiet_env one_doc None None no_options =
     (Inr \<lparr>totalDocuments = 1, successful = 1, failed = 0, report_dryRun = 0,
           results = [\<lparr>documentId = Some ''doc-1'', externalId = Str ''sp-1'',
                       item_status = ''success'', item_action = Some ''synced'',
                       item_error = None\<rparr>]\<rparr>,
      snd (pushDocumentsToDMS quiet_env one_doc None None no_options)) \<and>
   map (\<lambda>d. (doc_id d, external_dms_id d, needs_sync d))
     (documents (snd (pushDocumentsToDMS quiet_env one_doc None None no_options))) =
   [(''doc-1'', Some ''sp-1'', Some False)] \<and>
   pushDocumentsToDMS quiet_env
     (snd (pushDocumentsToDMS quiet_env one_doc None None no_options)) None None no_options =
     (Inr \<lparr>totalDocuments = 0, successful = 0, failed = 0, report_dryRun = 0, results = []\<rparr>,
      snd (pushDocumentsToDMS quiet_env one_doc None None no_options)) \<and>
   candidate_documents (snd (pushDocumentsToDMS quiet_env one_doc None None no_options)) None
     = [] \<and>
   map documentId
     (results \<lparr>totalDocuments = 1, successful = 1, failed = 0, report_dryRun = 0,
         results = [\<lparr>documentId = Some ''doc-1'', externalId = Str ''sp-2'',
                     item_status = ''success'', item_action = Some ''synced'',
                     item_error = None\<rparr>]\<rparr>) =
   map (\<lambda>d. Some (doc_id d))
     (candidate_documents (snd (pushDocumentsToDMS quiet_env one_doc None None no_options))
        (Some [''doc-1'']))"
proof -
  let ?item = "\<lparr>documentId = Some ''doc-1'', externalId = Str ''sp-1'',
                 item_status = ''success'', item_action = Some ''synced'',
                 item_error = None\<rparr>"
  let ?rep = "\<lparr>totalDocuments = 1, successful = 1, failed = 0, report_dryRun = 0,
               results = [?item]\<rparr>"
  let ?w = "snd (pushDocumentsToDMS quiet_env one_doc None None no_options)"
  let ?rep2 = "\<lparr>totalDocuments = 0, successful = 0, failed = 0, report_dryRun = 0,
                results = ([]::sync_item list)\<rparr>"
  let ?rep3 = "\<lparr>totalDocuments = 1, successful = 1, failed = 0, report_dryRun = 0,
         results = [\<lparr>documentId = Some ''doc-1'', externalId = Str ''sp-2'',
                     item_status = ''success'', item_action = Some ''synced'',
                     item_error = None\<rparr>]\<rparr>"
  let ?w3 = "snd (pushDocumentsToDMS quiet_env ?w None (Some [''doc-1'']) no_options)"
  note inst = push_twice_default_scope
    [where e = quiet_env and w = one_doc and sys = None and ids = None and opts = no_options
       and rep = ?rep and w' = ?w and r = ?item and x = "''sp-1''" and ?ids2.0 = None
       and ?e2.0 = quiet_env and ?sys2.0 = None and ?opts2.0 = no_options
       and ?rep2.0 = ?rep2 and w'' = ?w]
  note rows_rule = inst [THEN conjunct2, THEN conjunct1, rule_format]
  note again_rule = inst [THEN conjunct2, THEN conjunct2, THEN conjunct1, rule_format]
  note listed_rule = push_twice_default_scope
    [where e = quiet_env and w = ?w and sys = None and i = "''doc-1''" and rest = "[]"
       and opts = no_options and rep = ?rep3 and w' = ?w3,
     THEN conjunct2, THEN conjunct2, THEN conjunct2, THEN conjunct2, THEN conjunct2,
     rule_format]
  have listed: "map documentId (results ?rep3) =
      map (\<lambda>d. Some (doc_id d)) (candidate_documents ?w (Some [''doc-1'']))"
    by (rule listed_rule) (rule quiet_listed_push)
  have rows: "\<forall>d \<in> set (documents ?w). documentId ?item = Some (doc_id d) \<longrightarrow>
      external_dms_id d \<noteq> None \<and> needs_sync d = Some False"
    using inst [THEN conjunct2, THEN conjunct1] one_doc_distinct quiet_first_push by simp
  have again: "\<forall>r2 \<in> set (results ?rep2). documentId r2 \<noteq> documentId ?item"
    using inst [THEN conjunct2, THEN conjunct2, THEN conjunct1] one_doc_distinct
      quiet_first_push quiet_second_push
    by simp
  have "candidate_documents ?w None = []" by code_simp
  with again rows listed show ?thesis
    using one_doc_distinct quiet_first_push quiet_second_push quiet_first_rows
    by (intro conjI) simp_all
qed

subsection \<open>What a pull run does\<close>

text \<open>
  \<^verbatim>\<open>fetchDocumentsFromDMS\<close> returns the empty list, so that a pull whose DMS configuration
  exists goes through no external document: its report is empty and it leaves the world
  as it found it, whatever the conflict resolution that the request or the
  configuration names.
\<close>

lemma pull_lists_nothing:
  assumes "pullDocumentsFromDMS e w sys since_ts opts = (Inr rep, w')"
  shows "results rep = [] \<and> totalDocuments rep = 0 \<and> successful rep = 0 \<and> failed rep = 0 \<and>
         report_dryRun rep = 0 \<and> w' = w"
  using assms
  by (auto simp: pullDocumentsFromDMS_def fetchDocumentsFromDMS_def Let_def make_report_def
      count_status_def split: option.splits)

subsection \<open>The shape of a response (claim C9)\<close>

lemma dispatch_Inr:
  assumes "dispatch e w rq = (Inr result, w1)"
  shows "(action rq = Some ''push'' \<or> action rq = Some ''pull'') \<and> (\<exists>r. result = Report r) \<or>
         action rq = Some ''full_sync'' \<and> (\<exists>p q. result = FullSync p q) \<or>
         action rq = Some ''status'' \<and> (\<exists>s. result = Status s)"
proof (cases "action rq = Some ''push''")
  case True
  with assms show ?thesis
    by (auto simp: dispatch_def Let_def split: prod.splits sum.splits)
next
  case np: False
  show ?thesis
  proof (cases "action rq = Some ''pull''")
    case True
    with np assms show ?thesis
      by (auto simp: dispatch_def Let_def split: prod.splits sum.splits)
  next
    case npl: False
    show ?thesis
    proof (cases "action rq = Some ''full_sync''")
      case True
      with np npl assms show ?thesis
        by (auto simp: dispatch_def Let_def split: prod.splits sum.splits)
    next
      case nf: False
      show ?thesis
      proof (cases "action rq = Some ''status''")
        case True
        with np npl nf assms show ?thesis
          by (auto simp: dispatch_def Let_def split: prod.splits sum.splits)
      next
        case False
        with np npl nf assms show ?thesis by (simp add: dispatch_def Let_def)
      qed
    qed
  qed
qed

text \<open>
  Claim C9 says that a response is either \<^verbatim>\<open>{success, action, result: SyncReport, timestamp}\<close>
  or the error \<^verbatim>\<open>{success: false, error, message, timestamp}\<close>. Below, a push that cannot
  read the documents is answered with an error object that has no \<^verbatim>\<open>message\<close>, and a full
  sync with a result that is not a report but a pair of reports.
\<close>

theorem response_shape_counterexample:
  "fst (serve broken_env one_doc (post ''push'')) =
     \<lparr>response_status = 400,
      response_body = Some (JObj [(''success'', JBool False),
        (''error'', JStr ''Failed to fetch documents: connection refused''),
        (''timestamp'', JTime 1000)])\<rparr> \<and>
   fst (serve quiet_env one_doc (post ''full_sync'')) =
     \<lparr>response_status = 200,
      response_body = Some (JObj [(''success'', JBool True), (''action'', JStr ''full_sync''),
        (''result'', JObj
           [(''push'', JObj [(''totalDocuments'', JNum 1), (''successful'', JNum 1),
               (''failed'', JNum 0), (''dryRun'', JNum 0),
               (''results'', JArr [JObj [(''documentId'', JStr ''doc-1''),
                  (''externalId'', JStr ''sp-1''), (''status'', JStr ''success''),
                  (''action'', JStr ''synced'')]])]),
            (''pull'', JObj [(''totalDocuments'', JNum 0), (''successful'', JNum 0),
               (''failed'', JNum 0), (''dryRun'', JNum 0), (''results'', JArr [])])]),
        (''timestamp'', JTime 1000)])\<rparr>"
proof -
  have "fst (serve broken_env one_doc (post ''push'')) =
     \<lparr>response_status = 400,
      response_body = Some (JObj [(''success'', JBool False),
        (''error'', JStr ''Failed to fetch documents: connection refused''),
        (''timestamp'', JTime 1000)])\<rparr>"
    by code_simp
  moreover have "fst (serve quiet_env one_doc (post ''full_sync'')) =
     \<lparr>response_status = 200,
      response_body = Some (JObj [(''success'', JBool True), (''action'', JStr ''full_sync''),
        (''result'', JObj
           [(''push'', JObj [(''totalDocuments'', JNum 1), (''successful'', JNum 1),
               (''failed'', JNum 0), (''dryRun'', JNum 0),
               (''results'', JArr [JObj [(''documentId'', JStr ''doc-1''),
                  (''externalId'', JStr ''sp-1''), (''status'', JStr ''success''),
                  (''action'', JStr ''synced'')]])]),
            (''pull'', JObj [(''totalDocuments'', JNum 0), (''successful'', JNum 0),
               (''failed'', JNum 0), (''dryRun'', JNum 0), (''results'', JArr [])])]),
        (''timestamp'', JTime 1000)])\<rparr>"
    by code_simp
  ultimately show ?thesis by simp
qed

text \<open>
  Claim C9, amended. A request other than \<^verbatim>\<open>OPTIONS\<close> is answered either with the status
  400 and the object \<^verbatim>\<open>{success: false, error, timestamp}\<close>, \<^verbatim>\<open>error\<close> being the message of
  the error, or with the status 200 and the object
  \<^verbatim>\<open>{success: true, action, dmsSystemId, result, timestamp}\<close>, where \<^verbatim>\<open>dmsSystemId\<close> is present
  when the request named one and \<^verbatim>\<open>result\<close> is a report for a push or a pull, the pair
  \<^verbatim>\<open>{push, pull}\<close> of reports for a full sync, and the status summary for a status request.
\<close>

theorem response_shape:
  "http_method req \<noteq> ''OPTIONS'' \<longrightarrow>
     (\<exists>m. fst (serve e w req) =
        \<lparr>response_status = 400,
         response_body = Some (JObj [(''success'', JBool False), (''error'', JStr m),
                                     (''timestamp'', JTime (clock e))])\<rparr>) \<or>
     (\<exists>rq a j. json_body req = Inr rq \<and> action rq = Some a \<and>
        fst (serve e w req) =
          \<lparr>response_status = 200,
           response_body = Some (JObj ([(''success'', JBool True), (''action'', JStr a)] @
                                       opt_field ''dmsSystemId'' (dmsSystemId rq) @
                                       [(''result'', j), (''timestamp'', JTime (clock e))]))\<rparr> \<and>
        ((a = ''push'' \<or> a = ''pull'') \<and> (\<exists>r. j = report_json r) \<or>
         a = ''full_sync'' \<and>
           (\<exists>p q. j = JObj [(''push'', report_json p), (''pull'', report_json q)]) \<or>
         a = ''status'' \<and> (\<exists>s. j = status_json s)))"
proof
  assume no: "http_method req \<noteq> ''OPTIONS''"
  let ?err = "\<exists>m. fst (serve e w req) =
        \<lparr>response_status = 400,
         response_body = Some (JObj [(''success'', JBool False), (''error'', JStr m),
                                     (''timestamp'', JTime (clock e))])\<rparr>"
  let ?suc = "\<exists>rq a j. json_body req = Inr rq \<and> action rq = Some a \<and>
        fst (serve e w req) =
          \<lparr>response_status = 200,
           response_body = Some (JObj ([(''success'', JBool True), (''action'', JStr a)] @
                                       opt_field ''dmsSystemId'' (dmsSystemId rq) @
                                       [(''result'', j), (''timestamp'', JTime (clock e))]))\<rparr> \<and>
        ((a = ''push'' \<or> a = ''pull'') \<and> (\<exists>r. j = report_json r) \<or>
         a = ''full_sync'' \<and>
           (\<exists>p q. j = JObj [(''push'', report_json p), (''pull'', report_json q)]) \<or>
         a = ''status'' \<and> (\<exists>s. j = status_json s))"
  show "?err \<or> ?suc"
  proof (cases "createClient e")
    case (Inl m)
    with no have ?err by (simp add: serve_def error_response_def)
    then show ?thesis ..
  next
    case client: (Inr supabase)
    show ?thesis
    proof (cases "json_body req")
    case (Inl m)
    with no client have ?err by (simp add: serve_def error_response_def)
    then show ?thesis ..
  next
    case (Inr rq)
    obtain out w1 where d: "dispatch e w rq = (out, w1)" by (cases "dispatch e w rq")
    show ?thesis
    proof (cases out)
      case (Inl m)
      with no client Inr d have ?err by (simp add: serve_def error_response_def)
      then show ?thesis ..
    next
      case res: (Inr result)
      from dispatch_Inr [OF d [unfolded res]] have shape:
        "(action rq = Some ''push'' \<or> action rq = Some ''pull'') \<and> (\<exists>r. result = Report r) \<or>
         action rq = Some ''full_sync'' \<and> (\<exists>p q. result = FullSync p q) \<or>
         action rq = Some ''status'' \<and> (\<exists>s. result = Status s)" .
      then obtain a where a: "action rq = Some a" by blast
      have body: "fst (serve e w req) =
          \<lparr>response_status = 200,
           response_body = Some (JObj ([(''success'', JBool True), (''action'', JStr a)] @
                                       opt_field ''dmsSystemId'' (dmsSystemId rq) @
                                       [(''result'', result_json result),
                                        (''timestamp'', JTime (clock e))]))\<rparr>"
        using no client Inr d res a
        by (simp add: serve_def success_response_def opt_field_def)
      have kind: "(a = ''push'' \<or> a = ''pull'') \<and> (\<exists>r. result_json result = report_json r) \<or>
         a = ''full_sync'' \<and>
           (\<exists>p q. result_json result = JObj [(''push'', report_json p), (''pull'', report_json q)]) \<or>
         a = ''status'' \<and> (\<exists>s. result_json result = status_json s)"
        using shape
      proof (elim disjE conjE exE)
        fix r assume "action rq = Some ''push''" "result = Report r"
        with a have "a = ''push''" "result_json result = report_json r" by simp_all
        then show ?thesis by blast
      next
        fix r assume "action rq = Some ''pull''" "result = Report r"
        with a have "a = ''pull''" "result_json result = report_json r" by simp_all
        then show ?thesis by blast
      next
        fix p q assume "action rq = Some ''full_sync''" "result = FullSync p q"
        with a have "a = ''full_sync''"
          "result_json result = JObj [(''push'', report_json p), (''pull'', report_json q)]"
          by simp_all
        then show ?thesis by blast
      next
        fix s assume "action rq = Some ''status''" "result = Status s"
        with a have "a = ''status''" "result_json result = status_json s" by simp_all
        then show ?thesis by blast
      qed
      from Inr a body kind have ?suc
        by (intro exI [of _ rq] exI [of _ a] exI [of _ "result_json result"]) (intro conjI)
      then show ?thesis ..
    qed
  qed
  qed
qed

lemma post_method: "http_method (post a) \<noteq> ''OPTIONS''"
  by (simp add: post_def)

lemma post_without_url:
  "fst (serve bare_env one_doc (post ''status'')) =
     \<lparr>response_status = 400,
      response_body = Some (JObj [(''success'', JBool False),
        (''error'', JStr ''supabaseUrl is required.''), (''timestamp'', JTime 1000)])\<rparr>"
  by code_simp

lemma post_status_response:
  "fst (serve quiet_env one_doc (post ''status'')) =
     \<lparr>response_status = 200,
      response_body = Some (JObj [(''success'', JBool True), (''action'', JStr ''status''),
        (''result'', JObj [(''recentSyncs'', JArr []), (''status'', JStr ''active'')]),
        (''timestamp'', JTime 1000)])\<rparr>"
  by code_simp

theorem response_shape_witness:
  "http_method (post ''status'') \<noteq> ''OPTIONS'' \<and>
   ((\<exists>m. fst (serve quiet_env one_doc (post ''status'')) =
        \<lparr>response_status = 400,
         response_body = Some (JObj [(''success'', JBool False), (''error'', JStr m),
                                     (''timestamp'', JTime (clock quiet_env))])\<rparr>) \<or>
    (\<exists>rq a j. json_body (post ''status'') = Inr rq \<and> action rq = Some a \<and>
        fst (serve quiet_env one_doc (post ''status'')) =
          \<lparr>response_status = 200,
           response_body = Some (JObj ([(''success'', JBool True), (''action'', JStr a)] @
                                       opt_field ''dmsSystemId'' (dmsSystemId rq) @
                                       [(''result'', j),
                                        (''timestamp'', JTime (clock quiet_env))]))\<rparr> \<and>
        ((a = ''push'' \<or> a = ''pull'') \<and> (\<exists>r. j = report_json r) \<or>
         a = ''full_sync'' \<and>
           (\<exists>p q. j = JObj [(''push'', report_json p), (''pull'', report_json q)]) \<or>
         a = ''status'' \<and> (\<exists>s. j = status_json s)))) \<and>
   fst (serve quiet_env one_doc (post ''status'')) =
     \<lparr>response_status = 200,
      response_body = Some (JObj [(''success'', JBool True), (''action'', JStr ''status''),
        (''result'', JObj [(''recentSyncs'', JArr []), (''status'', JStr ''active'')]),
        (''timestamp'', JTime 1000)])\<rparr> \<and>
   fst (serve bare_env one_doc (post ''status'')) =
     \<lparr>response_status = 400,
      response_body = Some (JObj [(''success'', JBool False),
        (''error'', JStr ''supabaseUrl is required.''), (''timestamp'', JTime 1000)])\<rparr>"
proof (intro conjI)
  show m: "http_method (post ''status'') \<noteq> ''OPTIONS''" by (rule post_method)
  show "(\<exists>m. fst (serve quiet_env one_doc (post ''status'')) =
        \<lparr>response_status = 400,
         response_body = Some (JObj [(''success'', JBool False), (''error'', JStr m),
                                     (''timestamp'', JTime (clock quiet_env))])\<rparr>) \<or>
    (\<exists>rq a j. json_body (post ''status'') = Inr rq \<and> action rq = Some a \<and>
        fst (serve quiet_env one_doc (post ''status'')) =
          \<lparr>response_status = 200,
           response_body = Some (JObj ([(''success'', JBool True), (''action'', JStr a)] @
                                       opt_field ''dmsSystemId'' (dmsSystemId rq) @
                                       [(''result'', j),
                                        (''timestamp'', JTime (clock quiet_env))]))\<rparr> \<and>
        ((a = ''push'' \<or> a = ''pull'') \<and> (\<exists>r. j = report_json r) \<or>
         a = ''full_sync'' \<and>
           (\<exists>p q. j = JObj [(''push'', report_json p), (''pull'', report_json q)]) \<or>
         a = ''status'' \<and> (\<exists>s. j = status_json s)))"
    by (rule mp [OF response_shape [of "post ''status''" quiet_env one_doc] m])
  show "fst (serve quiet_env one_doc (post ''status'')) =
     \<lparr>response_status = 200,
      response_body = Some (JObj [(''success'', JBool True), (''action'', JStr ''status''),
        (''result'', JObj [(''recentSyncs'', JArr []), (''status'', JStr ''active'')]),
        (''timestamp'', JTime 1000)])\<rparr>"
    by (rule post_status_response)
  show "fst (serve bare_env one_doc (post ''status'')) =
     \<lparr>response_status = 400,
      response_body = Some (JObj [(''success'', JBool False),
        (''error'', JStr ''supabaseUrl is required.''), (''timestamp'', JTime 1000)])\<rparr>"
    by (rule post_without_url)
qed

end
